theory Spec2Isabelle
  imports Main "HOL-Library.Char_ord" "HOL-Library.List_Lexorder" "HOL-Library.Log_Nat"
begin

section \<open>The balance-consistency ledger of the Bitcoin Budget storage layer\<close>

text \<open>
  The development embeds \<^verbatim>\<open>lib/storage/budget-storage.ts\<close> (class
  \<^verbatim>\<open>BudgetStorageService\<close>), \<^verbatim>\<open>lib/storage/account-storage.ts\<close> (class
  \<^verbatim>\<open>AccountStorage\<close>) and the generic helpers of \<^verbatim>\<open>lib/storage/indexeddb.ts\<close>.

  Conventions of the embedding.
  \<^item> Amounts are JavaScript numbers (IEEE-754 doubles) holding whole satoshis.  A number
    is modelled by the integer it holds.  Every \<^verbatim>\<open>+\<close> and \<^verbatim>\<open>-\<close> the source applies to a stored
    balance is \<open>js_add\<close> or \<open>js_sub\<close>: the exact result rounded to the nearest double.
    A \<^verbatim>\<open>reduce\<close> that sums the amounts of a list is written as the sum of that list; the
    theorems about such sums only name the sum and use no law of arithmetic on it.
  \<^item> An IndexedDB object store with key path \<^verbatim>\<open>id\<close> is a list of records in the order
    \<^verbatim>\<open>getAll\<close> returns them (ascending key order; keys are compared as lists of
    characters, which is IndexedDB's order on ASCII identifiers such as UUIDs).
    \<^verbatim>\<open>add\<close> rejects an existing key, \<^verbatim>\<open>put\<close> replaces the record of an existing key or
    inserts, \<^verbatim>\<open>delete\<close> removes.  The storage engine can also reject a request for a
    reason of its own (\<^verbatim>\<open>request.onerror\<close>); these rejections are modelled in
    \<open>transferBetweenAccounts\<close>, see the last item, and are left out of the other
    operations, where the only rejected request is \<^verbatim>\<open>add\<close> on an existing key.
  \<^item> Every asynchronous method becomes a function from the database to an outcome and
    the database it leaves behind, so the effects that precede a thrown error stay visible.
  \<^item> \<^verbatim>\<open>crypto.randomUUID()\<close> is an argument of the operation that calls it.
  \<^item> The encryption codec is transparent (the password is the one the records were
    written with).  Fields that no branch of the ledger reads are left out of the
    records: the timestamps \<^verbatim>\<open>createdAt\<close>/\<^verbatim>\<open>updatedAt\<close>, the description, colour and icon
    of a category, the type and description of an account, and the \<^verbatim>\<open>cleared\<close> flag and
    the two optional transfer links of a transaction.
  \<^item> Every successful write of a store is appended to a log, which makes
    "the record is written only when ..." a statement about the final state.
  \<^item> \<^verbatim>\<open>Promise.all\<close> of two writes is run in the order the two calls are listed.  The
    order shows only when both writes address one record; the theorems of the claims do
    not rest on it.
  \<^item> In \<open>transferBetweenAccounts\<close>, whose rollback is the subject of a claim, each of
    the six calls that write can be rejected by the storage engine; which ones are is
    given by the argument \<open>engine\<close>.
\<close>

subsection \<open>Data model\<close>

datatype TransactionType = INCOME | EXPENSE | TRANSFER

record BudgetCategory =
  cat_id :: string
  cat_name :: string
  targetAmount :: int
  currentAmount :: int
  isArchived :: bool

record Transaction =
  tx_id :: string
  tx_accountId :: string
  tx_categoryId :: "string option"
  tx_amount :: int
  tx_description :: string
  tx_date :: int
  tx_type :: TransactionType
  tx_tags :: "string list option"

record Transfer =
  tr_id :: string
  fromCategoryId :: string
  toCategoryId :: string
  tr_amount :: int
  tr_description :: "string option"
  tr_date :: int

record Budget =
  budget_id :: string
  budget_name :: string

record Account =
  acc_id :: string
  acc_budgetId :: string
  acc_name :: string
  balance :: int
  isOnBudget :: bool
  isClosed :: bool
  sortOrder :: int

text \<open>\<^verbatim>\<open>Partial<...>\<close> update inputs: \<open>None\<close> is an absent key.\<close>

record UpdateBudgetCategoryInput =
  upd_cat_name :: "string option"
  upd_targetAmount :: "int option"
  upd_currentAmount :: "int option"
  upd_isArchived :: "bool option"

record UpdateTransactionInput =
  upd_accountId :: "string option"
  upd_categoryId :: "string option option"
  upd_amount :: "int option"
  upd_description :: "string option"
  upd_date :: "int option"
  upd_type :: "TransactionType option"
  upd_tags :: "string list option"

record UpdateAccountData =
  upd_acc_name :: "string option"
  upd_isOnBudget :: "bool option"
  upd_isClosed :: "bool option"
  upd_balance :: "int option"
  upd_sortOrder :: "int option"

record AccountTransferData =
  fromAccountId :: string
  toAccountId :: string
  atd_amount :: int
  atd_description :: "string option"
  atd_date :: int

datatype store = BUDGETS | ACCOUNTS | CATEGORIES | TRANSACTIONS | TRANSFERS

datatype store_write = Added store string | Put store string | Deleted store string

datatype error =
    CategoryNotFound
  | TransactionNotFound
  | TransferNotFound
  | AccountNotFound
  | SourceCategoryNotFound
  | DestinationCategoryNotFound
  | SourceAccountNotFound
  | DestinationAccountNotFound
  | InsufficientFunds
  | AddFailed store string
  | RequestFailed
  | TransferTransactionsFailed error

text \<open>The errors whose message is "... not found".\<close>

fun is_NotFound :: "error \<Rightarrow> bool" where
  "is_NotFound CategoryNotFound = True"
| "is_NotFound TransactionNotFound = True"
| "is_NotFound TransferNotFound = True"
| "is_NotFound AccountNotFound = True"
| "is_NotFound SourceCategoryNotFound = True"
| "is_NotFound DestinationCategoryNotFound = True"
| "is_NotFound SourceAccountNotFound = True"
| "is_NotFound DestinationAccountNotFound = True"
| "is_NotFound InsufficientFunds = False"
| "is_NotFound (AddFailed st k) = False"
| "is_NotFound RequestFailed = False"
| "is_NotFound (TransferTransactionsFailed e) = False"

record db =
  budgets :: "Budget list"
  accounts :: "Account list"
  categories :: "BudgetCategory list"
  transactions :: "Transaction list"
  transfers :: "Transfer list"
  writes :: "store_write list"

type_synonym 'a outcome = "(error + 'a) \<times> db"

subsection \<open>JavaScript numbers\<close>

text \<open>
  An integer of at most 53 bits is a double.  A longer one is rounded to 53 significant
  bits: to the nearest multiple of its unit in the last place, and to the multiple with
  the even significand when it lies half way between two.  (The source yields
  \<^verbatim>\<open>Infinity\<close> from 2 to the power 1024 on; the model has no such amounts.)
\<close>

definition js_round :: "int \<Rightarrow> int" where
  "js_round n =
     (let magnitude = \<bar>n\<bar>; excess = bitlen magnitude - 53 in
      if excess \<le> 0 then n
      else
        (let ulp = 2 ^ nat excess;
             significand = magnitude div ulp;
             remainder = magnitude mod ulp;
             rounded = (if 2 * remainder < ulp then significand
                        else if ulp < 2 * remainder then significand + 1
                        else if even significand then significand
                        else significand + 1)
         in sgn n * (rounded * ulp)))"

text \<open>\<^verbatim>\<open>x + y\<close> and \<^verbatim>\<open>x - y\<close> on numbers.\<close>

definition js_add :: "int \<Rightarrow> int \<Rightarrow> int" where
  "js_add x y = js_round (x + y)"

definition js_sub :: "int \<Rightarrow> int \<Rightarrow> int" where
  "js_sub x y = js_round (x - y)"

text \<open>\<^verbatim>\<open>Number.MAX_SAFE_INTEGER\<close> and \<^verbatim>\<open>Number.isSafeInteger\<close> on whole numbers.\<close>

definition MAX_SAFE_INTEGER :: int where
  "MAX_SAFE_INTEGER = 9007199254740991"

definition safe_integer :: "int \<Rightarrow> bool" where
  "safe_integer n \<longleftrightarrow> \<bar>n\<bar> \<le> MAX_SAFE_INTEGER"

subsection \<open>The object stores (indexeddb.ts)\<close>

definition getData :: "('r \<Rightarrow> string) \<Rightarrow> 'r list \<Rightarrow> string \<Rightarrow> 'r option" where
  "getData key rs i = find (\<lambda>r. key r = i) rs"

text \<open>\<^verbatim>\<open>store.add\<close>: \<open>None\<close> is the rejected request (the key exists).\<close>

definition addData :: "('r \<Rightarrow> string) \<Rightarrow> 'r list \<Rightarrow> 'r \<Rightarrow> 'r list option" where
  "addData key rs r =
     (case getData key rs (key r) of
        Some old \<Rightarrow> None
      | None \<Rightarrow> Some (insort_key key r rs))"

text \<open>\<^verbatim>\<open>store.put\<close>: an upsert.\<close>

definition updateData :: "('r \<Rightarrow> string) \<Rightarrow> 'r list \<Rightarrow> 'r \<Rightarrow> 'r list" where
  "updateData key rs r =
     (case getData key rs (key r) of
        Some old \<Rightarrow> map (\<lambda>x. if key x = key r then r else x) rs
      | None \<Rightarrow> insort_key key r rs)"

definition deleteData :: "('r \<Rightarrow> string) \<Rightarrow> 'r list \<Rightarrow> string \<Rightarrow> 'r list" where
  "deleteData key rs i = filter (\<lambda>r. key r \<noteq> i) rs"

subsection \<open>JavaScript truthiness and optional chaining\<close>

definition UNASSIGNED_CATEGORY_ID :: string where
  "UNASSIGNED_CATEGORY_ID = ''unassigned''"

text \<open>A string is truthy unless it is empty; \<^verbatim>\<open>null\<close> is falsy.\<close>

definition truthy :: "string \<Rightarrow> bool" where
  "truthy s \<longleftrightarrow> s \<noteq> []"

fun truthy_opt :: "string option \<Rightarrow> bool" where
  "truthy_opt None = False"
| "truthy_opt (Some s) = truthy s"

text \<open>\<^verbatim>\<open>t.tags?.includes(tag)\<close> as a condition: \<^verbatim>\<open>undefined\<close> is falsy.\<close>

fun tags_includes :: "string list option \<Rightarrow> string \<Rightarrow> bool" where
  "tags_includes None tag = False"
| "tags_includes (Some ts) tag = (tag \<in> set ts)"

text \<open>\<^verbatim>\<open>a || b\<close> on an optional string.\<close>

fun or_default :: "string option \<Rightarrow> string \<Rightarrow> string" where
  "or_default None d = d"
| "or_default (Some s) d = (if truthy s then s else d)"

subsection \<open>Category operations\<close>

definition getCategory :: "db \<Rightarrow> string \<Rightarrow> BudgetCategory option" where
  "getCategory s i = getData cat_id (categories s) i"

definition getAllCategories :: "db \<Rightarrow> BudgetCategory list" where
  "getAllCategories s = categories s"

text \<open>\<^verbatim>\<open>{ ...existing, ...updates }\<close>\<close>

definition spread_category :: "BudgetCategory \<Rightarrow> UpdateBudgetCategoryInput \<Rightarrow> BudgetCategory" where
  "spread_category existing u =
     existing\<lparr> cat_name := (case upd_cat_name u of None \<Rightarrow> cat_name existing | Some v \<Rightarrow> v),
               targetAmount := (case upd_targetAmount u of None \<Rightarrow> targetAmount existing | Some v \<Rightarrow> v),
               currentAmount := (case upd_currentAmount u of None \<Rightarrow> currentAmount existing | Some v \<Rightarrow> v),
               isArchived := (case upd_isArchived u of None \<Rightarrow> isArchived existing | Some v \<Rightarrow> v) \<rparr>"

definition updateCategory :: "db \<Rightarrow> string \<Rightarrow> UpdateBudgetCategoryInput \<Rightarrow> BudgetCategory outcome" where
  "updateCategory s i u =
     (case getCategory s i of
        None \<Rightarrow> (Inl CategoryNotFound, s)
      | Some existing \<Rightarrow>
          (let updated = spread_category existing u
           in (Inr updated,
               s\<lparr> categories := updateData cat_id (categories s) updated,
                  writes := writes s @ [Put CATEGORIES (cat_id updated)] \<rparr>)))"

text \<open>The update \<^verbatim>\<open>{ currentAmount: v }\<close>.\<close>

definition only_currentAmount :: "int \<Rightarrow> UpdateBudgetCategoryInput" where
  "only_currentAmount v =
     \<lparr> upd_cat_name = None, upd_targetAmount = None, upd_currentAmount = Some v,
       upd_isArchived = None \<rparr>"

subsection \<open>Account operations (account-storage.ts)\<close>

definition getAccount :: "db \<Rightarrow> string \<Rightarrow> Account option" where
  "getAccount s i = getData acc_id (accounts s) i"

text \<open>The records of one budget (index \<^verbatim>\<open>budgetId\<close>), sorted by \<^verbatim>\<open>sortOrder\<close>.\<close>

definition getAccounts :: "db \<Rightarrow> string \<Rightarrow> Account list" where
  "getAccounts s b = sort_key sortOrder (filter (\<lambda>a. acc_budgetId a = b) (accounts s))"

definition spread_account :: "Account \<Rightarrow> UpdateAccountData \<Rightarrow> Account" where
  "spread_account account u =
     account\<lparr> acc_name := (case upd_acc_name u of None \<Rightarrow> acc_name account | Some v \<Rightarrow> v),
              isOnBudget := (case upd_isOnBudget u of None \<Rightarrow> isOnBudget account | Some v \<Rightarrow> v),
              isClosed := (case upd_isClosed u of None \<Rightarrow> isClosed account | Some v \<Rightarrow> v),
              balance := (case upd_balance u of None \<Rightarrow> balance account | Some v \<Rightarrow> v),
              sortOrder := (case upd_sortOrder u of None \<Rightarrow> sortOrder account | Some v \<Rightarrow> v) \<rparr>"

definition updateAccount :: "db \<Rightarrow> string \<Rightarrow> UpdateAccountData \<Rightarrow> Account outcome" where
  "updateAccount s accountId u =
     (case getAccount s accountId of
        None \<Rightarrow> (Inl AccountNotFound, s)
      | Some account \<Rightarrow>
          (let updatedAccount = spread_account account u
           in (Inr updatedAccount,
               s\<lparr> accounts := updateData acc_id (accounts s) updatedAccount,
                  writes := writes s @ [Put ACCOUNTS accountId] \<rparr>)))"

definition only_balance :: "int \<Rightarrow> UpdateAccountData" where
  "only_balance v =
     \<lparr> upd_acc_name = None, upd_isOnBudget = None, upd_isClosed = None,
       upd_balance = Some v, upd_sortOrder = None \<rparr>"

definition updateAccountBalance :: "db \<Rightarrow> string \<Rightarrow> int \<Rightarrow> unit outcome" where
  "updateAccountBalance s accountId newBalance =
     (case getAccount s accountId of
        None \<Rightarrow> (Inl AccountNotFound, s)
      | Some account \<Rightarrow>
          (case updateAccount s accountId (only_balance newBalance) of
             (Inl e, s') \<Rightarrow> (Inl e, s')
           | (Inr a, s') \<Rightarrow> (Inr (), s')))"

text \<open>
  \<^verbatim>\<open>try { ... } catch (error) { console.warn(...) }\<close>: the error is dropped, the
  writes made before it stay.
\<close>

definition swallow :: "'a outcome \<Rightarrow> db" where
  "swallow r = snd r"

text \<open>
  \<^verbatim>\<open>await Promise.all([p, q])\<close> of two writes: both run, the first rejection is the
  one the caller sees.
\<close>

definition both :: "(db \<Rightarrow> 'a outcome) \<Rightarrow> (db \<Rightarrow> 'b outcome) \<Rightarrow> db \<Rightarrow> unit outcome" where
  "both p q s =
     (case p s of
        (Inl e, s1) \<Rightarrow> (Inl e, snd (q s1))
      | (Inr a, s1) \<Rightarrow>
          (case q s1 of
             (Inl e, s2) \<Rightarrow> (Inl e, s2)
           | (Inr b, s2) \<Rightarrow> (Inr (), s2)))"

subsection \<open>Transaction operations (budget-storage.ts)\<close>

definition getTransaction :: "db \<Rightarrow> string \<Rightarrow> Transaction option" where
  "getTransaction s i = getData tx_id (transactions s) i"

definition getAllTransactions :: "db \<Rightarrow> Transaction list" where
  "getAllTransactions s = transactions s"

text \<open>
  The category a transaction's effect goes to, under the guard
  \<^verbatim>\<open>t.categoryId && t.categoryId !== UNASSIGNED_CATEGORY_ID && !t.tags?.includes('transfer')\<close>
\<close>

definition category_effect_target :: "Transaction \<Rightarrow> string option" where
  "category_effect_target t =
     (case tx_categoryId t of
        None \<Rightarrow> None
      | Some c \<Rightarrow>
          (if truthy c \<and> c \<noteq> UNASSIGNED_CATEGORY_ID \<and> \<not> tags_includes (tx_tags t) ''transfer''
           then Some c else None))"

text \<open>
  The condition guarding the account effect on create and update:
  \<^verbatim>\<open>t.accountId && !t.tags?.includes('transfer') && !t.tags?.includes('account-transfer')\<close>
\<close>

definition account_effect_applies :: "Transaction \<Rightarrow> bool" where
  "account_effect_applies t \<longleftrightarrow>
     truthy (tx_accountId t) \<and> \<not> tags_includes (tx_tags t) ''transfer''
     \<and> \<not> tags_includes (tx_tags t) ''account-transfer''"

text \<open>
  \<^verbatim>\<open>const c = await this.getCategory(id); if (c) await this.updateCategory(id, { currentAmount: c.currentAmount + delta })\<close>
  An absent category is skipped without an error.  The paths that reverse an effect
  compute \<^verbatim>\<open>c.currentAmount - amount\<close>; they pass the negated amount as \<open>delta\<close>, which gives
  the same double, negation being exact.
\<close>

definition adjust_category :: "db \<Rightarrow> string \<Rightarrow> int \<Rightarrow> unit outcome" where
  "adjust_category s i delta =
     (case getCategory s i of
        None \<Rightarrow> (Inr (), s)
      | Some category \<Rightarrow>
          (case updateCategory s i (only_currentAmount (js_add (currentAmount category) delta)) of
             (Inl e, s') \<Rightarrow> (Inl e, s')
           | (Inr c, s') \<Rightarrow> (Inr (), s')))"

text \<open>
  \<^verbatim>\<open>const a = await accountStorage.getAccount(id); if (a) await accountStorage.updateAccountBalance(id, a.balance + delta)\<close>
\<close>

definition adjust_account :: "db \<Rightarrow> string \<Rightarrow> int \<Rightarrow> unit outcome" where
  "adjust_account s i delta =
     (case getAccount s i of
        None \<Rightarrow> (Inr (), s)
      | Some account \<Rightarrow> updateAccountBalance s i (js_add (balance account) delta))"

text \<open>The guarded category adjustment shared by create, update and delete.\<close>

definition category_effect :: "db \<Rightarrow> Transaction \<Rightarrow> int \<Rightarrow> unit outcome" where
  "category_effect s t delta =
     (case category_effect_target t of
        None \<Rightarrow> (Inr (), s)
      | Some c \<Rightarrow> adjust_category s c delta)"

definition createTransaction :: "db \<Rightarrow> Transaction \<Rightarrow> string \<Rightarrow> Transaction outcome" where
  "createTransaction s input new_id =
     (let transaction = input\<lparr> tx_id := new_id \<rparr> in
      case category_effect s transaction (tx_amount transaction) of
        (Inl e, s1) \<Rightarrow> (Inl e, s1)
      | (Inr u, s1) \<Rightarrow>
          (let s2 = (if account_effect_applies transaction
                     then swallow (adjust_account s1 (tx_accountId transaction) (tx_amount transaction))
                     else s1)
           in case addData tx_id (transactions s2) transaction of
                None \<Rightarrow> (Inl (AddFailed TRANSACTIONS new_id), s2)
              | Some txs \<Rightarrow>
                  (Inr transaction,
                   s2\<lparr> transactions := txs,
                       writes := writes s2 @ [Added TRANSACTIONS new_id] \<rparr>)))"

text \<open>\<^verbatim>\<open>{ ...existing, ...updates }\<close>\<close>

definition spread_transaction :: "Transaction \<Rightarrow> UpdateTransactionInput \<Rightarrow> Transaction" where
  "spread_transaction existing u =
     existing\<lparr> tx_accountId := (case upd_accountId u of None \<Rightarrow> tx_accountId existing | Some v \<Rightarrow> v),
               tx_categoryId := (case upd_categoryId u of None \<Rightarrow> tx_categoryId existing | Some v \<Rightarrow> v),
               tx_amount := (case upd_amount u of None \<Rightarrow> tx_amount existing | Some v \<Rightarrow> v),
               tx_description := (case upd_description u of None \<Rightarrow> tx_description existing | Some v \<Rightarrow> v),
               tx_date := (case upd_date u of None \<Rightarrow> tx_date existing | Some v \<Rightarrow> v),
               tx_type := (case upd_type u of None \<Rightarrow> tx_type existing | Some v \<Rightarrow> v),
               tx_tags := (case upd_tags u of None \<Rightarrow> tx_tags existing | Some v \<Rightarrow> Some v) \<rparr>"

definition updateTransaction :: "db \<Rightarrow> string \<Rightarrow> UpdateTransactionInput \<Rightarrow> Transaction outcome" where
  "updateTransaction s i u =
     (case getTransaction s i of
        None \<Rightarrow> (Inl TransactionNotFound, s)
      | Some existing \<Rightarrow>
          (let updated = spread_transaction existing u in
           case (if tx_categoryId existing \<noteq> tx_categoryId updated \<or> tx_amount existing \<noteq> tx_amount updated
                 then (case category_effect s existing (- tx_amount existing) of
                         (Inl e, s1) \<Rightarrow> (Inl e, s1)
                       | (Inr u1, s1) \<Rightarrow>
                           category_effect s1 updated (tx_amount updated))
                 else (Inr (), s)) of
             (Inl e, s2) \<Rightarrow> (Inl e, s2)
           | (Inr u2, s2) \<Rightarrow>
               (let s4 = (if tx_accountId existing \<noteq> tx_accountId updated \<or> tx_amount existing \<noteq> tx_amount updated
                          then (case (if account_effect_applies existing
                                      then adjust_account s2 (tx_accountId existing) (- tx_amount existing)
                                      else (Inr (), s2)) of
                                  (Inl e, s3) \<Rightarrow> s3
                                | (Inr u3, s3) \<Rightarrow>
                                    (if account_effect_applies updated
                                     then swallow (adjust_account s3 (tx_accountId updated) (tx_amount updated))
                                     else s3))
                          else s2)
                in (Inr updated,
                    s4\<lparr> transactions := updateData tx_id (transactions s4) updated,
                        writes := writes s4 @ [Put TRANSACTIONS (tx_id updated)] \<rparr>))))"

definition deleteTransaction :: "db \<Rightarrow> string \<Rightarrow> unit outcome" where
  "deleteTransaction s i =
     (case getTransaction s i of
        None \<Rightarrow> (Inl TransactionNotFound, s)
      | Some transaction \<Rightarrow>
          (case category_effect s transaction (- tx_amount transaction) of
             (Inl e, s1) \<Rightarrow> (Inl e, s1)
           | (Inr u, s1) \<Rightarrow>
               (let s2 = (if truthy (tx_accountId transaction)
                          then (if tags_includes (tx_tags transaction) ''account-transfer''
                                then swallow (adjust_account s1 (tx_accountId transaction) (- tx_amount transaction))
                                else if \<not> tags_includes (tx_tags transaction) ''transfer''
                                then swallow (adjust_account s1 (tx_accountId transaction) (- tx_amount transaction))
                                else s1)
                          else s1)
                in (Inr (),
                    s2\<lparr> transactions := deleteData tx_id (transactions s2) i,
                        writes := writes s2 @ [Deleted TRANSACTIONS i] \<rparr>))))"

subsection \<open>Category transfers\<close>

definition getTransfer :: "db \<Rightarrow> string \<Rightarrow> Transfer option" where
  "getTransfer s i = getData tr_id (transfers s) i"


text \<open>An awaited call whose value is not used.\<close>

definition discard :: "'a outcome \<Rightarrow> unit outcome" where
  "discard r = (case r of (Inl e, s) \<Rightarrow> (Inl e, s) | (Inr a, s) \<Rightarrow> (Inr (), s))"

text \<open>The transaction synthesised for a transfer that touches the unassigned pool.\<close>

definition transfer_transaction :: "Transfer \<Rightarrow> string \<Rightarrow> int \<Rightarrow> TransactionType \<Rightarrow> string \<Rightarrow> Transaction" where
  "transfer_transaction input new_id amount ty category =
     \<lparr> tx_id = new_id,
       tx_accountId = ''default-account-id'',
       tx_categoryId = Some category,
       tx_amount = amount,
       tx_description = or_default (tr_description input) ''Transfer'',
       tx_date = tr_date input,
       tx_type = ty,
       tx_tags = Some [''transfer''] \<rparr>"

text \<open>
  \<open>new_id\<close> is the UUID of the transfer record, \<open>tx_new_id\<close> the UUID that
  \<open>createTransaction\<close> draws for the synthesised transaction.
\<close>

definition createTransfer :: "db \<Rightarrow> Transfer \<Rightarrow> string \<Rightarrow> string \<Rightarrow> Transfer outcome" where
  "createTransfer s input new_id tx_new_id =
     (let transfer = input\<lparr> tr_id := new_id \<rparr> in
      case (if fromCategoryId input = UNASSIGNED_CATEGORY_ID then
              (case getCategory s (toCategoryId input) of
                 None \<Rightarrow> (Inl DestinationCategoryNotFound, s)
               | Some toCategory \<Rightarrow>
                   (case createTransaction s
                           (transfer_transaction input tx_new_id (- tr_amount input) EXPENSE (fromCategoryId input))
                           tx_new_id of
                      (Inl e, s1) \<Rightarrow> (Inl e, s1)
                    | (Inr t, s1) \<Rightarrow>
                        discard (updateCategory s1 (toCategoryId input)
                                   (only_currentAmount (js_add (currentAmount toCategory) (tr_amount input))))))
            else if toCategoryId input = UNASSIGNED_CATEGORY_ID then
              (case getCategory s (fromCategoryId input) of
                 None \<Rightarrow> (Inl SourceCategoryNotFound, s)
               | Some fromCategory \<Rightarrow>
                   (case createTransaction s
                           (transfer_transaction input tx_new_id (tr_amount input) INCOME (toCategoryId input))
                           tx_new_id of
                      (Inl e, s1) \<Rightarrow> (Inl e, s1)
                    | (Inr t, s1) \<Rightarrow>
                        (if fromCategoryId input \<noteq> UNASSIGNED_CATEGORY_ID
                         then adjust_category s1 (fromCategoryId input) (- tr_amount input)
                         else (Inr (), s1))))
            else
              (case getCategory s (fromCategoryId input) of
                 None \<Rightarrow> (Inl SourceCategoryNotFound, s)
               | Some fromCategory \<Rightarrow>
                   (case getCategory s (toCategoryId input) of
                      None \<Rightarrow> (Inl DestinationCategoryNotFound, s)
                    | Some toCategory \<Rightarrow>
                        both (\<lambda>st. updateCategory st (fromCategoryId input)
                                     (only_currentAmount (js_sub (currentAmount fromCategory) (tr_amount input))))
                             (\<lambda>st. updateCategory st (toCategoryId input)
                                     (only_currentAmount (js_add (currentAmount toCategory) (tr_amount input))))
                             s))) of
        (Inl e, s') \<Rightarrow> (Inl e, s')
      | (Inr u, s') \<Rightarrow>
          (case addData tr_id (transfers s') transfer of
             None \<Rightarrow> (Inl (AddFailed TRANSFERS new_id), s')
           | Some trs \<Rightarrow>
               (Inr transfer,
                s'\<lparr> transfers := trs, writes := writes s' @ [Added TRANSFERS new_id] \<rparr>)))"

text \<open>
  The content match of \<open>deleteTransfer\<close>:
  \<^verbatim>\<open>t.amount === amount && t.description === description && t.tags?.includes('transfer')\<close>
\<close>

definition transfer_match :: "int \<Rightarrow> string \<Rightarrow> Transaction \<Rightarrow> bool" where
  "transfer_match amount description t \<longleftrightarrow>
     tx_amount t = amount \<and> tx_description t = description \<and> tags_includes (tx_tags t) ''transfer''"

text \<open>\<^verbatim>\<open>const t = transactions.find(...); if (t) await this.deleteTransaction(t.id)\<close>\<close>

definition delete_matching_transaction :: "db \<Rightarrow> int \<Rightarrow> string \<Rightarrow> unit outcome" where
  "delete_matching_transaction s amount description =
     (case find (transfer_match amount description) (getAllTransactions s) of
        None \<Rightarrow> (Inr (), s)
      | Some transferTransaction \<Rightarrow> deleteTransaction s (tx_id transferTransaction))"

definition deleteTransfer :: "db \<Rightarrow> string \<Rightarrow> unit outcome" where
  "deleteTransfer s i =
     (case getTransfer s i of
        None \<Rightarrow> (Inl TransferNotFound, s)
      | Some transfer \<Rightarrow>
          (case (if fromCategoryId transfer = UNASSIGNED_CATEGORY_ID then
                   (case getCategory s (toCategoryId transfer) of
                      None \<Rightarrow> (Inl DestinationCategoryNotFound, s)
                    | Some toCategory \<Rightarrow>
                        (case delete_matching_transaction s (- tr_amount transfer)
                                (''Transfer to '' @ cat_name toCategory) of
                           (Inl e, s1) \<Rightarrow> (Inl e, s1)
                         | (Inr u, s1) \<Rightarrow>
                             discard (updateCategory s1 (toCategoryId transfer)
                                        (only_currentAmount (js_sub (currentAmount toCategory) (tr_amount transfer))))))
                 else if toCategoryId transfer = UNASSIGNED_CATEGORY_ID then
                   (case getCategory s (fromCategoryId transfer) of
                      None \<Rightarrow> (Inl SourceCategoryNotFound, s)
                    | Some fromCategory \<Rightarrow>
                        (case delete_matching_transaction s (tr_amount transfer)
                                (''Transfer from '' @ cat_name fromCategory) of
                           (Inl e, s1) \<Rightarrow> (Inl e, s1)
                         | (Inr u, s1) \<Rightarrow>
                             discard (updateCategory s1 (fromCategoryId transfer)
                                        (only_currentAmount (js_add (currentAmount fromCategory) (tr_amount transfer))))))
                 else
                   (case getCategory s (fromCategoryId transfer) of
                      None \<Rightarrow> (Inl SourceCategoryNotFound, s)
                    | Some fromCategory \<Rightarrow>
                        (case getCategory s (toCategoryId transfer) of
                           None \<Rightarrow> (Inl DestinationCategoryNotFound, s)
                         | Some toCategory \<Rightarrow>
                             both (\<lambda>st. updateCategory st (fromCategoryId transfer)
                                          (only_currentAmount (js_add (currentAmount fromCategory) (tr_amount transfer))))
                                  (\<lambda>st. updateCategory st (toCategoryId transfer)
                                          (only_currentAmount (js_sub (currentAmount toCategory) (tr_amount transfer))))
                                  s))) of
             (Inl e, s') \<Rightarrow> (Inl e, s')
           | (Inr u, s') \<Rightarrow>
               (Inr (),
                s'\<lparr> transfers := deleteData tr_id (transfers s') i,
                    writes := writes s' @ [Deleted TRANSFERS i] \<rparr>)))"

subsection \<open>The unassigned pool\<close>

definition getAllBudgets :: "db \<Rightarrow> Budget list" where
  "getAllBudgets s = budgets s"

definition getUnassignedBalance :: "db \<Rightarrow> int" where
  "getUnassignedBalance s =
     (let unassignedTransactions =
            filter (\<lambda>t. \<not> truthy_opt (tx_categoryId t) \<and> \<not> tags_includes (tx_tags t) ''transfer''
                        \<and> \<not> tags_includes (tx_tags t) ''account-transfer'')
                   (getAllTransactions s);
          transactionBalance = sum_list (map tx_amount unassignedTransactions);
          accountBalance =
            (case getAllBudgets s of
               [] \<Rightarrow> 0
             | currentBudget # others \<Rightarrow>
                 sum_list (map balance
                   (filter (\<lambda>account. isOnBudget account \<and> \<not> isClosed account)
                           (getAccounts s (budget_id currentBudget)))));
          totalAllocatedToCategories = sum_list (map currentAmount (getAllCategories s))
      in accountBalance + transactionBalance - totalAllocatedToCategories)"

subsection \<open>Reconciliation\<close>








subsection \<open>Account transfers\<close>

definition account_transfer_transaction ::
  "AccountTransferData \<Rightarrow> string \<Rightarrow> string \<Rightarrow> int \<Rightarrow> string \<Rightarrow> TransactionType \<Rightarrow> string \<Rightarrow> Transaction" where
  "account_transfer_transaction d new_id transferId amount description ty account =
     \<lparr> tx_id = new_id,
       tx_accountId = account,
       tx_categoryId = None,
       tx_amount = amount,
       tx_description = description,
       tx_date = atd_date d,
       tx_type = ty,
       tx_tags = Some [''account-transfer'', ''transfer-'' @ transferId] \<rparr>"

text \<open>
  The six calls of \<open>transferBetweenAccounts\<close> that write to a store.  Each makes one
  write, as its last step: \<open>updateAccountBalance\<close> one \<^verbatim>\<open>put\<close>, and
  \<open>createTransaction\<close> of a leg one \<^verbatim>\<open>add\<close> (a leg has no category and is tagged
  "account-transfer", so it has no balance effect).
\<close>

datatype request =
  Debit | Credit | OutgoingLeg | IncomingLeg | RestoreSource | RestoreDestination

text \<open>
  A call one of whose requests the storage engine may reject (\<^verbatim>\<open>request.onerror\<close>
  rejects the promise): the call then throws and, its write being its last request, the
  database is as it was before the call.
\<close>

definition rejectable :: "bool \<Rightarrow> (db \<Rightarrow> 'a outcome) \<Rightarrow> db \<Rightarrow> 'a outcome" where
  "rejectable rejected call s =
     (case call s of
        (Inl e, s') \<Rightarrow> (Inl e, s')
      | (Inr a, s') \<Rightarrow> if rejected then (Inl RequestFailed, s) else (Inr a, s'))"

text \<open>
  \<open>engine r\<close> holds when the storage engine rejects the request of call \<open>r\<close>.
  \<open>transferId\<close>, \<open>from_tx_id\<close> and \<open>to_tx_id\<close> are the three UUIDs drawn, in this order.
\<close>

definition transferBetweenAccounts ::
  "(request \<Rightarrow> bool) \<Rightarrow> db \<Rightarrow> AccountTransferData \<Rightarrow> string \<Rightarrow> string \<Rightarrow> string
     \<Rightarrow> (Transaction \<times> Transaction) outcome" where
  "transferBetweenAccounts engine s d transferId from_tx_id to_tx_id =
     (case getAccount s (fromAccountId d) of
        None \<Rightarrow> (Inl SourceAccountNotFound, s)
      | Some fromAccount \<Rightarrow>
          (case getAccount s (toAccountId d) of
             None \<Rightarrow> (Inl DestinationAccountNotFound, s)
           | Some toAccount \<Rightarrow>
               if balance fromAccount < atd_amount d then (Inl InsufficientFunds, s)
               else
                 (case both (rejectable (engine Debit)
                               (\<lambda>st. updateAccountBalance st (fromAccountId d)
                                       (js_sub (balance fromAccount) (atd_amount d))))
                            (rejectable (engine Credit)
                               (\<lambda>st. updateAccountBalance st (toAccountId d)
                                       (js_add (balance toAccount) (atd_amount d))))
                            s of
                    (Inl e, s1) \<Rightarrow> (Inl e, s1)
                  | (Inr u, s1) \<Rightarrow>
                      (let description =
                             or_default (atd_description d)
                               (''Transfer from '' @ acc_name fromAccount @ '' to '' @ acc_name toAccount)
                       in case (case rejectable (engine OutgoingLeg)
                                       (\<lambda>st. createTransaction st
                                          (account_transfer_transaction d from_tx_id transferId (- atd_amount d)
                                             (description @ '' (Outgoing)'') EXPENSE (fromAccountId d))
                                          from_tx_id)
                                       s1 of
                                  (Inl e, s2) \<Rightarrow> (Inl e, s2)
                                | (Inr fromTransaction, s2) \<Rightarrow>
                                    (case rejectable (engine IncomingLeg)
                                            (\<lambda>st. createTransaction st
                                               (account_transfer_transaction d to_tx_id transferId (atd_amount d)
                                                  (description @ '' (Incoming)'') INCOME (toAccountId d))
                                               to_tx_id)
                                            s2 of
                                       (Inl e, s3) \<Rightarrow> (Inl e, s3)
                                     | (Inr toTransaction, s3) \<Rightarrow> (Inr (fromTransaction, toTransaction), s3))) of
                            (Inr r, s3) \<Rightarrow> (Inr r, s3)
                          | (Inl e, s3) \<Rightarrow>
                              (case both (rejectable (engine RestoreSource)
                                            (\<lambda>st. updateAccountBalance st (fromAccountId d)
                                                    (balance fromAccount)))
                                         (rejectable (engine RestoreDestination)
                                            (\<lambda>st. updateAccountBalance st (toAccountId d)
                                                    (balance toAccount)))
                                         s3 of
                                 (Inl e', s4) \<Rightarrow> (Inl e', s4)
                               | (Inr u', s4) \<Rightarrow> (Inl (TransferTransactionsFailed e), s4))))))"

subsection \<open>The reconciliation formulas as the specification words them\<close>




subsection \<open>Example records and databases\<close>

definition example_account :: "string \<Rightarrow> string \<Rightarrow> int \<Rightarrow> Account" where
  "example_account i b v =
     \<lparr> acc_id = i, acc_budgetId = b, acc_name = i, balance = v, isOnBudget = True,
       isClosed = False, sortOrder = 0 \<rparr>"

definition example_category :: "string \<Rightarrow> string \<Rightarrow> int \<Rightarrow> BudgetCategory" where
  "example_category i n v =
     \<lparr> cat_id = i, cat_name = n, targetAmount = 500000, currentAmount = v, isArchived = False \<rparr>"

definition example_transaction ::
  "string \<Rightarrow> string \<Rightarrow> string option \<Rightarrow> int \<Rightarrow> string list option \<Rightarrow> Transaction" where
  "example_transaction i a c v ts =
     \<lparr> tx_id = i, tx_accountId = a, tx_categoryId = c, tx_amount = v, tx_description = ''coffee'',
       tx_date = 0, tx_type = EXPENSE, tx_tags = ts \<rparr>"

definition example_transfer :: "string \<Rightarrow> string \<Rightarrow> string \<Rightarrow> int \<Rightarrow> string option \<Rightarrow> Transfer" where
  "example_transfer i f t v d =
     \<lparr> tr_id = i, fromCategoryId = f, toCategoryId = t, tr_amount = v, tr_description = d,
       tr_date = 0 \<rparr>"

definition empty_db :: db where
  "empty_db =
     \<lparr> budgets = [], accounts = [], categories = [], transactions = [], transfers = [],
       writes = [] \<rparr>"

text \<open>Two accounts of one budget: A holds 100000 sats, B holds none.\<close>

definition two_accounts_db :: db where
  "two_accounts_db =
     empty_db\<lparr> budgets := [\<lparr> budget_id = ''b1'', budget_name = ''main'' \<rparr>],
               accounts := [example_account ''A'' ''b1'' 100000, example_account ''B'' ''b1'' 0] \<rparr>"

definition example_account_transfer :: "int \<Rightarrow> AccountTransferData" where
  "example_account_transfer v =
     \<lparr> fromAccountId = ''A'', toAccountId = ''B'', atd_amount = v, atd_description = None,
       atd_date = 0 \<rparr>"

text \<open>
  Three storage engines: one that rejects nothing, one that rejects the creation of the
  incoming leg, and one that also rejects the write restoring the source account.
\<close>

definition reliable_engine :: "request \<Rightarrow> bool" where
  "reliable_engine r = False"

definition incoming_rejected :: "request \<Rightarrow> bool" where
  "incoming_rejected r \<longleftrightarrow> r = IncomingLeg"

definition incoming_and_restore_rejected :: "request \<Rightarrow> bool" where
  "incoming_and_restore_rejected r \<longleftrightarrow> r = IncomingLeg \<or> r = RestoreSource"

text \<open>One leg of an account transfer and one leg of a category transfer, both on account A.\<close>

definition account_transfer_leg :: Transaction where
  "account_transfer_leg = example_transaction ''x0'' ''A'' None 5 (Some [''account-transfer''])"

definition category_transfer_leg :: Transaction where
  "category_transfer_leg =
     example_transaction ''x1'' ''A'' (Some ''unassigned'') 5 (Some [''transfer''])"

definition transfer_leg_db :: db where
  "transfer_leg_db = two_accounts_db\<lparr> transactions := [category_transfer_leg] \<rparr>"

text \<open>The two accounts and one category "Groceries" with nothing allocated.\<close>

definition groceries_db :: db where
  "groceries_db = two_accounts_db\<lparr> categories := [example_category ''c1'' ''Groceries'' 0] \<rparr>"

definition groceries_expense :: Transaction where
  "groceries_expense = example_transaction ''x0'' ''A'' (Some ''c1'') (- 25000) None"

text \<open>
  The same with "Groceries" holding 9007199254740992 sats, which is 2 to the power 53,
  and with account A holding as much.
\<close>

definition brimming_db :: db where
  "brimming_db =
     empty_db\<lparr> budgets := [\<lparr> budget_id = ''b1'', budget_name = ''main'' \<rparr>],
               accounts := [example_account ''A'' ''b1'' 9007199254740992],
               categories := [example_category ''c1'' ''Groceries'' 9007199254740992] \<rparr>"

text \<open>The update \<^verbatim>\<open>{ amount: v }\<close> of a transaction.\<close>

definition only_amount :: "int \<Rightarrow> UpdateTransactionInput" where
  "only_amount v =
     \<lparr> upd_accountId = None, upd_categoryId = None, upd_amount = Some v, upd_description = None,
       upd_date = None, upd_type = None, upd_tags = None \<rparr>"


section \<open>Properties\<close>

subsection \<open>JavaScript numbers\<close>

text \<open>Safe integers are doubles, and a sum or difference that is safe is exact.\<close>

lemma js_round_safe: "safe_integer n \<Longrightarrow> js_round n = n"
proof -
  assume "safe_integer n"
  then have "\<bar>n\<bar> < 2 ^ nat 53"
    by (simp add: safe_integer_def MAX_SAFE_INTEGER_def)
  then have "bitlen \<bar>n\<bar> \<le> 53"
    by (simp add: bitlen_le_iff_power)
  then show ?thesis
    by (simp add: js_round_def Let_def)
qed

lemma js_add_safe: "safe_integer (x + y) \<Longrightarrow> js_add x y = x + y"
  by (simp add: js_add_def js_round_safe)

lemma js_sub_safe: "safe_integer (x - y) \<Longrightarrow> js_sub x y = x - y"
  by (simp add: js_sub_def js_round_safe)

lemma js_add_uminus: "js_add x (- y) = js_sub x y"
  by (simp add: js_add_def js_sub_def)

lemma js_add_then_sub:
  "safe_integer x \<Longrightarrow> safe_integer (x + y) \<Longrightarrow> js_sub (js_add x y) y = x"
  by (simp add: js_add_safe js_sub_safe)

lemma js_sub_then_add:
  "safe_integer x \<Longrightarrow> safe_integer (x - y) \<Longrightarrow> js_add (js_sub x y) y = x"
  by (simp add: js_add_safe js_sub_safe)

text \<open>Beyond the safe integers a sum is rounded: 2 to the power 53, plus one, is itself.\<close>

lemma bitlen_2_53_plus_1: "bitlen 9007199254740993 = 54"
  using bitlen_twopow_add_eq [of 1 53] by simp

lemma js_add_at_2_53: "js_add 9007199254740992 1 = 9007199254740992"
  by (simp add: js_add_def js_round_def Let_def bitlen_2_53_plus_1)

lemma js_sub_at_2_53: "js_sub 9007199254740992 1 = 9007199254740991"
  by (simp add: js_sub_safe safe_integer_def MAX_SAFE_INTEGER_def)

subsection \<open>The object stores\<close>

lemma getData_Some: "getData key rs i = Some r \<Longrightarrow> key r = i \<and> r \<in> set rs"
  unfolding getData_def by (induction rs) (auto split: if_splits)

lemma getData_None_iff: "getData key rs i = None \<longleftrightarrow> i \<notin> key ` set rs"
  unfolding getData_def by (induction rs) auto

lemma getData_insort_other:
  "key r \<noteq> i \<Longrightarrow> getData key (insort_key key r rs) i = getData key rs i"
  unfolding getData_def by (induction rs) auto

lemma getData_insort_same:
  "getData key rs (key r) = None \<Longrightarrow> getData key (insort_key key r rs) (key r) = Some r"
  unfolding getData_def by (induction rs) (auto split: if_splits)

lemma getData_replace:
  "getData key (map (\<lambda>x. if key x = key r then r else x) rs) i =
     (if i = key r then (case getData key rs i of None \<Rightarrow> None | Some old \<Rightarrow> Some r)
      else getData key rs i)"
  unfolding getData_def by (induction rs) auto

lemma getData_updateData:
  "getData key (updateData key rs r) i = (if i = key r then Some r else getData key rs i)"
  unfolding updateData_def
  by (auto simp: getData_replace getData_insort_other getData_insort_same split: option.splits)

lemma getData_deleteData:
  "getData key (deleteData key rs i) j = (if j = i then None else getData key rs j)"
  unfolding getData_def deleteData_def by (induction rs) auto

subsection \<open>Balance writes\<close>

lemma spread_only_currentAmount:
  "spread_category c (only_currentAmount v) = c\<lparr> currentAmount := v \<rparr>"
  by (simp add: spread_category_def only_currentAmount_def)

lemma spread_only_balance: "spread_account a (only_balance v) = a\<lparr> balance := v \<rparr>"
  by (simp add: spread_account_def only_balance_def)

lemma updateCategory_Some:
  "getCategory s i = Some c \<Longrightarrow>
   updateCategory s i (only_currentAmount v) =
     (Inr (c\<lparr> currentAmount := v \<rparr>),
      s\<lparr> categories := updateData cat_id (categories s) (c\<lparr> currentAmount := v \<rparr>),
         writes := writes s @ [Put CATEGORIES i] \<rparr>)"
  by (auto simp: updateCategory_def spread_only_currentAmount getCategory_def Let_def
           dest: getData_Some)

lemma updateAccountBalance_Some:
  "getAccount s i = Some a \<Longrightarrow>
   updateAccountBalance s i v =
     (Inr (),
      s\<lparr> accounts := updateData acc_id (accounts s) (a\<lparr> balance := v \<rparr>),
         writes := writes s @ [Put ACCOUNTS i] \<rparr>)"
  by (auto simp: updateAccountBalance_def updateAccount_def spread_only_balance getAccount_def
                 Let_def
           dest: getData_Some)

lemma adjust_category_eq:
  "adjust_category s i delta =
     (Inr (),
      case getCategory s i of
        None \<Rightarrow> s
      | Some c \<Rightarrow>
          s\<lparr> categories :=
               updateData cat_id (categories s) (c\<lparr> currentAmount := js_add (currentAmount c) delta \<rparr>),
             writes := writes s @ [Put CATEGORIES i] \<rparr>)"
  by (simp add: adjust_category_def updateCategory_Some split: option.splits)

lemma adjust_account_eq:
  "adjust_account s i delta =
     (Inr (),
      case getAccount s i of
        None \<Rightarrow> s
      | Some a \<Rightarrow>
          s\<lparr> accounts := updateData acc_id (accounts s) (a\<lparr> balance := js_add (balance a) delta \<rparr>),
             writes := writes s @ [Put ACCOUNTS i] \<rparr>)"
  by (simp add: adjust_account_def updateAccountBalance_Some split: option.splits)

subsection \<open>Account transfers\<close>

text \<open>
  Claim C3.  When both accounts exist and the amount is strictly greater than the balance
  of the source account, \<open>transferBetweenAccounts\<close> throws the insufficient-funds error
  and returns the database it was given: no balance, no transaction and no entry of the
  write log differs.
\<close>

theorem transferBetweenAccounts_insufficient_funds:
  assumes "getAccount s (fromAccountId d) = Some fromAccount"
      and "getAccount s (toAccountId d) = Some toAccount"
      and "balance fromAccount < atd_amount d"
  shows "transferBetweenAccounts engine s d transferId from_tx_id to_tx_id = (Inl InsufficientFunds, s)"
  using assms unfolding transferBetweenAccounts_def by simp

theorem transferBetweenAccounts_insufficient_funds_witness:
  "getAccount two_accounts_db (fromAccountId (example_account_transfer 100001))
     = Some (example_account ''A'' ''b1'' 100000)
   \<and> getAccount two_accounts_db (toAccountId (example_account_transfer 100001))
     = Some (example_account ''B'' ''b1'' 0)
   \<and> balance (example_account ''A'' ''b1'' 100000) < atd_amount (example_account_transfer 100001)
   \<and> transferBetweenAccounts reliable_engine two_accounts_db (example_account_transfer 100001)
        ''t'' ''x1'' ''x2''
     = (Inl InsufficientFunds, two_accounts_db)"
proof -
  have a: "getAccount two_accounts_db (fromAccountId (example_account_transfer 100001))
             = Some (example_account ''A'' ''b1'' 100000)"
    by (simp add: getAccount_def getData_def two_accounts_db_def empty_db_def
                  example_account_transfer_def example_account_def)
  have b: "getAccount two_accounts_db (toAccountId (example_account_transfer 100001))
             = Some (example_account ''B'' ''b1'' 0)"
    by (simp add: getAccount_def getData_def two_accounts_db_def empty_db_def
                  example_account_transfer_def example_account_def)
  have c: "balance (example_account ''A'' ''b1'' 100000) < atd_amount (example_account_transfer 100001)"
    by (simp add: example_account_transfer_def example_account_def)
  from transferBetweenAccounts_insufficient_funds [OF a b c] a b c show ?thesis by simp
qed

subsection \<open>Effects of a transaction on the balances\<close>

lemma adjust_category_fst: "fst (adjust_category s i delta) = Inr ()"
  by (simp add: adjust_category_eq)

lemma adjust_category_frame:
  "accounts (snd (adjust_category s i delta)) = accounts s"
  "transactions (snd (adjust_category s i delta)) = transactions s"
  "transfers (snd (adjust_category s i delta)) = transfers s"
  "budgets (snd (adjust_category s i delta)) = budgets s"
  by (simp_all add: adjust_category_eq split: option.splits)

lemma adjust_category_getCategory:
  "getCategory (snd (adjust_category s i delta)) j =
     (if j = i then map_option (\<lambda>c. c\<lparr> currentAmount := js_add (currentAmount c) delta \<rparr>) (getCategory s i)
      else getCategory s j)"
  by (auto simp: adjust_category_eq getCategory_def getData_updateData dest: getData_Some
           split: option.splits)

lemma adjust_account_fst: "fst (adjust_account s i delta) = Inr ()"
  by (simp add: adjust_account_eq)

lemma adjust_account_frame:
  "categories (snd (adjust_account s i delta)) = categories s"
  "transactions (snd (adjust_account s i delta)) = transactions s"
  "transfers (snd (adjust_account s i delta)) = transfers s"
  "budgets (snd (adjust_account s i delta)) = budgets s"
  by (simp_all add: adjust_account_eq split: option.splits)

lemma adjust_account_getAccount:
  "getAccount (snd (adjust_account s i delta)) j =
     (if j = i then map_option (\<lambda>a. a\<lparr> balance := js_add (balance a) delta \<rparr>) (getAccount s i)
      else getAccount s j)"
  by (auto simp: adjust_account_eq getAccount_def getData_updateData dest: getData_Some
           split: option.splits)

lemma category_effect_fst: "fst (category_effect s t delta) = Inr ()"
  by (simp add: category_effect_def adjust_category_fst split: option.splits)

lemma category_effect_frame:
  "accounts (snd (category_effect s t delta)) = accounts s"
  "transactions (snd (category_effect s t delta)) = transactions s"
  "transfers (snd (category_effect s t delta)) = transfers s"
  "budgets (snd (category_effect s t delta)) = budgets s"
  by (simp_all add: category_effect_def adjust_category_frame split: option.splits)

lemma category_effect_getCategory:
  "getCategory (snd (category_effect s t delta)) j =
     (if category_effect_target t = Some j
      then map_option (\<lambda>c. c\<lparr> currentAmount := js_add (currentAmount c) delta \<rparr>) (getCategory s j)
      else getCategory s j)"
  by (auto simp: category_effect_def adjust_category_getCategory split: option.splits)

lemma getAccount_cong: "accounts s = accounts s' \<Longrightarrow> getAccount s j = getAccount s' j"
  by (simp add: getAccount_def)

lemma getCategory_cong: "categories s = categories s' \<Longrightarrow> getCategory s j = getCategory s' j"
  by (simp add: getCategory_def)

lemma getTransaction_cong: "transactions s = transactions s' \<Longrightarrow> getTransaction s j = getTransaction s' j"
  by (simp add: getTransaction_def)

text \<open>The state after the two balance effects of createTransaction\<close>

lemma createTransaction_fresh:
  assumes "getTransaction s new_id = None"
  shows "createTransaction s input new_id =
     (let t = input\<lparr> tx_id := new_id \<rparr>;
          s1 = snd (category_effect s t (tx_amount t));
          s2 = (if account_effect_applies t then snd (adjust_account s1 (tx_accountId t) (tx_amount t)) else s1)
      in (Inr t, s2\<lparr> transactions := insort_key tx_id t (transactions s),
                      writes := writes s2 @ [Added TRANSACTIONS new_id] \<rparr>))"
proof -
  let ?t = "input\<lparr> tx_id := new_id \<rparr>"
  obtain s1 where ce: "category_effect s ?t (tx_amount input) = (Inr (), s1)"
    using category_effect_fst [of s ?t "tx_amount input"]
    by (cases "category_effect s ?t (tx_amount input)") auto
  have tx1: "transactions s1 = transactions s"
    using category_effect_frame(2) [of s ?t "tx_amount input"] ce by simp
  have fresh: "getData tx_id (transactions s) new_id = None"
    using assms by (simp add: getTransaction_def)
  show ?thesis
    unfolding createTransaction_def Let_def
    by (simp add: ce swallow_def addData_def adjust_account_frame tx1 fresh)
qed

lemma category_effect_target_tx_id [simp]:
  "category_effect_target (t\<lparr> tx_id := x \<rparr>) = category_effect_target t"
  by (simp add: category_effect_target_def split: option.splits)

lemma account_effect_applies_tx_id [simp]:
  "account_effect_applies (t\<lparr> tx_id := x \<rparr>) = account_effect_applies t"
  by (simp add: account_effect_applies_def)

lemma deleteTransaction_Some:
  assumes "getTransaction s i = Some t"
  shows "deleteTransaction s i =
     (let s1 = snd (category_effect s t (- tx_amount t));
          s2 = (if truthy (tx_accountId t)
                   \<and> (tags_includes (tx_tags t) ''account-transfer'' \<or> \<not> tags_includes (tx_tags t) ''transfer'')
                then snd (adjust_account s1 (tx_accountId t) (- tx_amount t)) else s1)
      in (Inr (), s2\<lparr> transactions := deleteData tx_id (transactions s) i,
                      writes := writes s2 @ [Deleted TRANSACTIONS i] \<rparr>))"
proof -
  obtain s1 where ce: "category_effect s t (- tx_amount t) = (Inr (), s1)"
    using category_effect_fst [of s t "- tx_amount t"]
    by (cases "category_effect s t (- tx_amount t)") auto
  have tx1: "transactions s1 = transactions s"
    using category_effect_frame(2) [of s t "- tx_amount t"] ce by simp
  show ?thesis
    unfolding deleteTransaction_def Let_def
    by (simp add: assms ce swallow_def adjust_account_frame tx1)
qed

lemma createTransaction_getCategory:
  assumes "getTransaction s new_id = None"
  shows "getCategory (snd (createTransaction s input new_id)) j =
     (if category_effect_target input = Some j
      then map_option (\<lambda>c. c\<lparr> currentAmount := js_add (currentAmount c) (tx_amount input) \<rparr>) (getCategory s j)
      else getCategory s j)"
proof -
  let ?t = "input\<lparr> tx_id := new_id \<rparr>"
  let ?s1 = "snd (category_effect s ?t (tx_amount ?t))"
  have "categories (snd (createTransaction s input new_id)) = categories ?s1"
    by (simp add: createTransaction_fresh [OF assms] Let_def adjust_account_frame)
  then have "getCategory (snd (createTransaction s input new_id)) j = getCategory ?s1 j"
    by (rule getCategory_cong)
  then show ?thesis by (simp add: category_effect_getCategory)
qed

lemma createTransaction_getAccount:
  assumes "getTransaction s new_id = None"
  shows "getAccount (snd (createTransaction s input new_id)) j =
     (if account_effect_applies input \<and> tx_accountId input = j
      then map_option (\<lambda>a. a\<lparr> balance := js_add (balance a) (tx_amount input) \<rparr>) (getAccount s j)
      else getAccount s j)"
proof -
  let ?t = "input\<lparr> tx_id := new_id \<rparr>"
  let ?s1 = "snd (category_effect s ?t (tx_amount ?t))"
  let ?s2 = "if account_effect_applies ?t then snd (adjust_account ?s1 (tx_accountId ?t) (tx_amount ?t)) else ?s1"
  have "accounts (snd (createTransaction s input new_id)) = accounts ?s2"
    by (simp add: createTransaction_fresh [OF assms] Let_def)
  then have "getAccount (snd (createTransaction s input new_id)) j = getAccount ?s2 j"
    by (rule getAccount_cong)
  moreover have "getAccount ?s1 j = getAccount s j"
    by (rule getAccount_cong) (simp add: category_effect_frame)
  ultimately show ?thesis by (simp add: adjust_account_getAccount)
qed

lemma createTransaction_getTransaction:
  assumes "getTransaction s new_id = None"
  shows "getTransaction (snd (createTransaction s input new_id)) j =
     (if j = new_id then Some (input\<lparr> tx_id := new_id \<rparr>) else getTransaction s j)"
  using assms
  by (auto simp: createTransaction_fresh Let_def getTransaction_def getData_insort_other
                 getData_insort_same [of tx_id _ "input\<lparr> tx_id := new_id \<rparr>", simplified])

lemma createTransaction_fst:
  assumes "getTransaction s new_id = None"
  shows "fst (createTransaction s input new_id) = Inr (input\<lparr> tx_id := new_id \<rparr>)"
  by (simp add: createTransaction_fresh [OF assms] Let_def)

lemma deleteTransaction_fst:
  "getTransaction s i = Some t \<Longrightarrow> fst (deleteTransaction s i) = Inr ()"
  by (simp add: deleteTransaction_Some Let_def)

lemma deleteTransaction_getCategory:
  assumes "getTransaction s i = Some t"
  shows "getCategory (snd (deleteTransaction s i)) j =
     (if category_effect_target t = Some j
      then map_option (\<lambda>c. c\<lparr> currentAmount := js_sub (currentAmount c) (tx_amount t) \<rparr>) (getCategory s j)
      else getCategory s j)"
proof -
  let ?s1 = "snd (category_effect s t (- tx_amount t))"
  have "categories (snd (deleteTransaction s i)) = categories ?s1"
    by (simp add: deleteTransaction_Some [OF assms] Let_def adjust_account_frame)
  then have "getCategory (snd (deleteTransaction s i)) j = getCategory ?s1 j"
    by (rule getCategory_cong)
  then show ?thesis by (simp add: category_effect_getCategory js_add_uminus)
qed

lemma deleteTransaction_getAccount:
  assumes "getTransaction s i = Some t"
  shows "getAccount (snd (deleteTransaction s i)) j =
     (if truthy (tx_accountId t) \<and> tx_accountId t = j
         \<and> (tags_includes (tx_tags t) ''account-transfer'' \<or> \<not> tags_includes (tx_tags t) ''transfer'')
      then map_option (\<lambda>a. a\<lparr> balance := js_sub (balance a) (tx_amount t) \<rparr>) (getAccount s j)
      else getAccount s j)"
proof -
  let ?s1 = "snd (category_effect s t (- tx_amount t))"
  let ?s2 = "if truthy (tx_accountId t)
                   \<and> (tags_includes (tx_tags t) ''account-transfer'' \<or> \<not> tags_includes (tx_tags t) ''transfer'')
                then snd (adjust_account ?s1 (tx_accountId t) (- tx_amount t)) else ?s1"
  have "accounts (snd (deleteTransaction s i)) = accounts ?s2"
    by (simp add: deleteTransaction_Some [OF assms] Let_def)
  then have "getAccount (snd (deleteTransaction s i)) j = getAccount ?s2 j"
    by (rule getAccount_cong)
  moreover have "getAccount ?s1 j = getAccount s j"
    by (rule getAccount_cong) (simp add: category_effect_frame)
  ultimately show ?thesis by (simp add: adjust_account_getAccount js_add_uminus)
qed

lemma deleteTransaction_getTransaction:
  assumes "getTransaction s i = Some t"
  shows "getTransaction (snd (deleteTransaction s i)) j =
     (if j = i then None else getTransaction s j)"
  by (simp add: deleteTransaction_Some [OF assms] Let_def getTransaction_def getData_deleteData)

lemma getAccount_two_accounts_db_A:
  "getAccount two_accounts_db ''A'' = Some (example_account ''A'' ''b1'' 100000)"
  by (simp add: getAccount_def getData_def two_accounts_db_def empty_db_def example_account_def)

lemma getTransaction_two_accounts_db: "getTransaction two_accounts_db i = None"
  by (simp add: getTransaction_def getData_def two_accounts_db_def empty_db_def)

subsection \<open>Creating and deleting a transaction\<close>

text \<open>
  Claim C2 (amended).  Let the identifier be fresh, and let the category and the account
  that the creation adjusts, if they exist, hold a safe integer before and after the
  adjustment.  Then \<open>createTransaction\<close> followed by \<open>deleteTransaction\<close> of the created
  transaction succeeds and leaves every category record as it was before the creation.
  It leaves every account record as it was, with one exception: when the transaction is
  tagged "account-transfer" and its \<open>accountId\<close> is set, the account of that id, if it
  exists, ends with the balance \<open>balance - amount\<close>, the creation having left it alone.
\<close>

theorem create_delete_restores_balances:
  assumes fresh: "getTransaction s new_id = None"
      and category_safe:
        "\<And>cid c. category_effect_target t = Some cid \<Longrightarrow> getCategory s cid = Some c
           \<Longrightarrow> safe_integer (currentAmount c) \<and> safe_integer (currentAmount c + tx_amount t)"
      and account_safe:
        "\<And>a. account_effect_applies t \<Longrightarrow> getAccount s (tx_accountId t) = Some a
           \<Longrightarrow> safe_integer (balance a) \<and> safe_integer (balance a + tx_amount t)"
  shows "fst (createTransaction s t new_id) = Inr (t\<lparr> tx_id := new_id \<rparr>)
       \<and> fst (deleteTransaction (snd (createTransaction s t new_id)) new_id) = Inr ()
       \<and> (\<forall>j. getCategory (snd (deleteTransaction (snd (createTransaction s t new_id)) new_id)) j
                = getCategory s j)
       \<and> (\<forall>j. getAccount (snd (deleteTransaction (snd (createTransaction s t new_id)) new_id)) j
                = (if tags_includes (tx_tags t) ''account-transfer'' \<and> truthy (tx_accountId t)
                      \<and> j = tx_accountId t
                   then map_option (\<lambda>a. a\<lparr> balance := js_sub (balance a) (tx_amount t) \<rparr>)
                          (getAccount s j)
                   else getAccount s j))"
proof -
  let ?t = "t\<lparr> tx_id := new_id \<rparr>"
  let ?s1 = "snd (createTransaction s t new_id)"
  let ?s2 = "snd (deleteTransaction ?s1 new_id)"
  have stored: "getTransaction ?s1 new_id = Some ?t"
    by (simp add: createTransaction_getTransaction [OF fresh])
  have cat: "getCategory ?s2 j = getCategory s j" for j
  proof (cases "category_effect_target t = Some j")
    case False
    then show ?thesis
      by (simp add: deleteTransaction_getCategory [OF stored]
                    createTransaction_getCategory [OF fresh])
  next
    case True
    show ?thesis
    proof (cases "getCategory s j")
      case None
      with True show ?thesis
        by (simp add: deleteTransaction_getCategory [OF stored]
                      createTransaction_getCategory [OF fresh])
    next
      case (Some c)
      from category_safe [OF True Some]
      have "js_sub (js_add (currentAmount c) (tx_amount t)) (tx_amount t) = currentAmount c"
        by (simp add: js_add_then_sub)
      with True Some show ?thesis
        by (simp add: deleteTransaction_getCategory [OF stored]
                      createTransaction_getCategory [OF fresh])
    qed
  qed
  have acc: "getAccount ?s2 j =
               (if tags_includes (tx_tags t) ''account-transfer'' \<and> truthy (tx_accountId t)
                   \<and> j = tx_accountId t
                then map_option (\<lambda>a. a\<lparr> balance := js_sub (balance a) (tx_amount t) \<rparr>)
                       (getAccount s j)
                else getAccount s j)" for j
  proof (cases "account_effect_applies t \<and> tx_accountId t = j")
    case False
    then show ?thesis
      by (auto simp: deleteTransaction_getAccount [OF stored]
                     createTransaction_getAccount [OF fresh] account_effect_applies_def)
  next
    case True
    then have applies: "account_effect_applies t" and j: "tx_accountId t = j"
      by simp_all
    show ?thesis
    proof (cases "getAccount s j")
      case None
      with True show ?thesis
        by (auto simp: deleteTransaction_getAccount [OF stored]
                       createTransaction_getAccount [OF fresh] account_effect_applies_def)
    next
      case (Some a)
      from account_safe [OF applies] Some j
      have "js_sub (js_add (balance a) (tx_amount t)) (tx_amount t) = balance a"
        by (simp add: js_add_then_sub)
      with True Some show ?thesis
        by (auto simp: deleteTransaction_getAccount [OF stored]
                       createTransaction_getAccount [OF fresh] account_effect_applies_def)
    qed
  qed
  show ?thesis
    using cat acc
    by (simp add: createTransaction_fst [OF fresh] deleteTransaction_fst [OF stored])
qed

text \<open>
  The claim as stated fails for a transaction tagged "account-transfer": creation leaves
  the account alone, deletion subtracts the amount.  Account A goes from 100000 to 99995.
\<close>

theorem create_delete_account_transfer_counterexample:
  "fst (createTransaction two_accounts_db account_transfer_leg ''x0'') = Inr account_transfer_leg
   \<and> fst (deleteTransaction (snd (createTransaction two_accounts_db account_transfer_leg ''x0'')) ''x0'')
       = Inr ()
   \<and> map_option balance (getAccount two_accounts_db ''A'') = Some 100000
   \<and> map_option balance
       (getAccount (snd (deleteTransaction (snd (createTransaction two_accounts_db account_transfer_leg ''x0'')) ''x0''))
          ''A'') = Some 99995"
proof -
  have fresh: "getTransaction two_accounts_db ''x0'' = None"
    by (rule getTransaction_two_accounts_db)
  have same: "account_transfer_leg\<lparr> tx_id := ''x0'' \<rparr> = account_transfer_leg"
    by (simp add: account_transfer_leg_def example_transaction_def)
  have stored: "getTransaction (snd (createTransaction two_accounts_db account_transfer_leg ''x0'')) ''x0''
                  = Some account_transfer_leg"
    by (simp add: createTransaction_getTransaction [OF fresh] same)
  have sub: "js_sub 100000 5 = 99995"
    by (simp add: js_sub_safe safe_integer_def MAX_SAFE_INTEGER_def)
  show ?thesis
    by (simp add: createTransaction_fst [OF fresh] same deleteTransaction_fst [OF stored]
                  deleteTransaction_getAccount [OF stored] createTransaction_getAccount [OF fresh]
                  getAccount_two_accounts_db_A)
       (simp add: account_transfer_leg_def example_transaction_def example_account_def
                  account_effect_applies_def truthy_def sub)
qed

lemma getTransaction_groceries_db: "getTransaction groceries_db i = None"
  by (simp add: getTransaction_def getData_def groceries_db_def two_accounts_db_def empty_db_def)

lemma getAccount_groceries_db_A:
  "getAccount groceries_db ''A'' = Some (example_account ''A'' ''b1'' 100000)"
  by (simp add: getAccount_def getData_def groceries_db_def two_accounts_db_def empty_db_def example_account_def)

lemma getCategory_groceries_db:
  "getCategory groceries_db ''c1'' = Some (example_category ''c1'' ''Groceries'' 0)"
  by (simp add: getCategory_def getData_def groceries_db_def two_accounts_db_def empty_db_def example_category_def)

lemma groceries_expense_effects:
  "category_effect_target groceries_expense = Some ''c1''"
  "account_effect_applies groceries_expense"
  "tx_accountId groceries_expense = ''A''"
  "tx_amount groceries_expense = - 25000"
  "\<not> tags_includes (tx_tags groceries_expense) ''account-transfer''"
  by (simp_all add: groceries_expense_def example_transaction_def category_effect_target_def
                    account_effect_applies_def truthy_def UNASSIGNED_CATEGORY_ID_def)

theorem create_delete_restores_balances_witness:
  "getTransaction groceries_db ''x1'' = None
   \<and> category_effect_target groceries_expense = Some ''c1''
   \<and> getCategory groceries_db ''c1'' = Some (example_category ''c1'' ''Groceries'' 0)
   \<and> safe_integer 0 \<and> safe_integer (0 + tx_amount groceries_expense)
   \<and> account_effect_applies groceries_expense
   \<and> getAccount groceries_db (tx_accountId groceries_expense)
       = Some (example_account ''A'' ''b1'' 100000)
   \<and> safe_integer 100000 \<and> safe_integer (100000 + tx_amount groceries_expense)
   \<and> fst (createTransaction groceries_db groceries_expense ''x1'')
       = Inr (groceries_expense\<lparr> tx_id := ''x1'' \<rparr>)
   \<and> fst (deleteTransaction (snd (createTransaction groceries_db groceries_expense ''x1'')) ''x1'') = Inr ()
   \<and> getCategory (snd (deleteTransaction (snd (createTransaction groceries_db groceries_expense ''x1'')) ''x1'')) ''c1''
       = Some (example_category ''c1'' ''Groceries'' 0)
   \<and> getAccount (snd (deleteTransaction (snd (createTransaction groceries_db groceries_expense ''x1'')) ''x1'')) ''A''
       = Some (example_account ''A'' ''b1'' 100000)"
proof -
  have fresh: "getTransaction groceries_db ''x1'' = None"
    by (rule getTransaction_groceries_db)
  have category_safe:
    "safe_integer (currentAmount c) \<and> safe_integer (currentAmount c + tx_amount groceries_expense)"
    if "category_effect_target groceries_expense = Some cid" "getCategory groceries_db cid = Some c"
    for cid c
    using that
    by (auto simp: groceries_expense_effects getCategory_groceries_db example_category_def
                   safe_integer_def MAX_SAFE_INTEGER_def)
  have account_safe:
    "safe_integer (balance a) \<and> safe_integer (balance a + tx_amount groceries_expense)"
    if "account_effect_applies groceries_expense"
       "getAccount groceries_db (tx_accountId groceries_expense) = Some a"
    for a
    using that
    by (auto simp: groceries_expense_effects getAccount_groceries_db_A example_account_def
                   safe_integer_def MAX_SAFE_INTEGER_def)
  from create_delete_restores_balances [OF fresh category_safe account_safe]
  show ?thesis
    by (simp add: fresh groceries_expense_effects getCategory_groceries_db
                  getAccount_groceries_db_A safe_integer_def MAX_SAFE_INTEGER_def)
qed

text \<open>
  Claim C4 (amended).  Deleting a stored transaction whose \<open>accountId\<close> is set and names
  an existing account succeeds; it subtracts the amount from that account's balance when
  the transaction is tagged "account-transfer" or is not tagged "transfer", and leaves
  the account record as it was when the transaction is tagged "transfer" without
  "account-transfer".
\<close>

theorem deleteTransaction_account_reversal:
  assumes "getTransaction s i = Some tx"
      and "truthy (tx_accountId tx)"
      and "getAccount s (tx_accountId tx) = Some a"
  shows "fst (deleteTransaction s i) = Inr ()
       \<and> getAccount (snd (deleteTransaction s i)) (tx_accountId tx) =
           Some (a\<lparr> balance :=
                      (if tags_includes (tx_tags tx) ''account-transfer''
                          \<or> \<not> tags_includes (tx_tags tx) ''transfer''
                       then js_sub (balance a) (tx_amount tx) else balance a) \<rparr>)"
  using assms by (simp add: deleteTransaction_fst deleteTransaction_getAccount)

lemma getTransaction_transfer_leg_db:
  "getTransaction transfer_leg_db ''x1'' = Some category_transfer_leg"
  by (simp add: getTransaction_def getData_def transfer_leg_db_def category_transfer_leg_def
                example_transaction_def)

lemma getAccount_transfer_leg_db_A:
  "getAccount transfer_leg_db ''A'' = Some (example_account ''A'' ''b1'' 100000)"
  by (simp add: getAccount_def getData_def transfer_leg_db_def two_accounts_db_def empty_db_def
                example_account_def)

theorem deleteTransaction_account_reversal_witness:
  "getTransaction transfer_leg_db ''x1'' = Some category_transfer_leg
   \<and> truthy (tx_accountId category_transfer_leg)
   \<and> getAccount transfer_leg_db (tx_accountId category_transfer_leg)
       = Some (example_account ''A'' ''b1'' 100000)
   \<and> fst (deleteTransaction transfer_leg_db ''x1'') = Inr ()
   \<and> getAccount (snd (deleteTransaction transfer_leg_db ''x1'')) ''A''
       = Some (example_account ''A'' ''b1'' 100000)"
proof -
  have acc: "tx_accountId category_transfer_leg = ''A''"
    by (simp add: category_transfer_leg_def example_transaction_def)
  have t: "truthy (tx_accountId category_transfer_leg)"
    by (simp add: acc truthy_def)
  have a: "getAccount transfer_leg_db (tx_accountId category_transfer_leg)
             = Some (example_account ''A'' ''b1'' 100000)"
    by (simp add: acc getAccount_transfer_leg_db_A)
  from deleteTransaction_account_reversal [OF getTransaction_transfer_leg_db t a]
       getTransaction_transfer_leg_db t a
  show ?thesis
    by (simp add: acc) (simp add: category_transfer_leg_def example_transaction_def)
qed

text \<open>
  The claim as stated fails for a leg tagged "transfer" only: deleting the leg of amount 5
  on account A leaves the balance at 100000.
\<close>

theorem deleteTransaction_transfer_leg_counterexample:
  "getTransaction transfer_leg_db ''x1'' = Some category_transfer_leg
   \<and> tx_accountId category_transfer_leg = ''A''
   \<and> tx_amount category_transfer_leg = 5
   \<and> tx_tags category_transfer_leg = Some [''transfer'']
   \<and> map_option balance (getAccount transfer_leg_db ''A'') = Some 100000
   \<and> fst (deleteTransaction transfer_leg_db ''x1'') = Inr ()
   \<and> map_option balance (getAccount (snd (deleteTransaction transfer_leg_db ''x1'')) ''A'')
       = Some 100000"
  by (simp add: getTransaction_transfer_leg_db getAccount_transfer_leg_db_A
                deleteTransaction_fst [OF getTransaction_transfer_leg_db]
                deleteTransaction_getAccount [OF getTransaction_transfer_leg_db])
     (simp add: category_transfer_leg_def example_transaction_def example_account_def)

subsection \<open>Updating a transaction\<close>

lemma case_category_effect:
  "(case category_effect s t d of (Inl e, s1) \<Rightarrow> A e s1 | (Inr u, s1) \<Rightarrow> B u s1)
     = B () (snd (category_effect s t d))"
  using category_effect_fst [of s t d]
  by (cases "category_effect s t d") (auto split: sum.splits)

lemma case_adjust_account:
  "(case adjust_account s i d of (Inl e, s1) \<Rightarrow> A e s1 | (Inr u, s1) \<Rightarrow> B u s1)
     = B () (snd (adjust_account s i d))"
  using adjust_account_fst [of s i d]
  by (cases "adjust_account s i d") (auto split: sum.splits)

lemma tx_id_spread [simp]: "tx_id (spread_transaction t u) = tx_id t"
  by (simp add: spread_transaction_def)

lemma spread_only_amount: "spread_transaction t (only_amount v) = t\<lparr> tx_amount := v \<rparr>"
  by (simp add: spread_transaction_def only_amount_def)

lemma updateTransaction_fst:
  "getTransaction s i = Some existing \<Longrightarrow>
   fst (updateTransaction s i u) = Inr (spread_transaction existing u)"
  by (simp add: updateTransaction_def Let_def case_category_effect)

lemma updateTransaction_categories:
  assumes "getTransaction s i = Some existing"
  shows "categories (snd (updateTransaction s i u)) =
     (let updated = spread_transaction existing u in
      if tx_categoryId existing \<noteq> tx_categoryId updated \<or> tx_amount existing \<noteq> tx_amount updated
      then categories (snd (category_effect (snd (category_effect s existing (- tx_amount existing)))
                              updated (tx_amount updated)))
      else categories s)"
  by (simp add: updateTransaction_def Let_def assms case_category_effect case_adjust_account
                adjust_account_frame swallow_def)

lemma updateTransaction_getCategory:
  assumes "getTransaction s i = Some existing"
  shows "getCategory (snd (updateTransaction s i u)) j =
     (let updated = spread_transaction existing u;
          reversed = (if category_effect_target existing = Some j
                      then map_option (\<lambda>c. c\<lparr> currentAmount := js_sub (currentAmount c) (tx_amount existing) \<rparr>)
                             (getCategory s j)
                      else getCategory s j)
      in if tx_categoryId existing \<noteq> tx_categoryId updated \<or> tx_amount existing \<noteq> tx_amount updated
         then (if category_effect_target updated = Some j
               then map_option (\<lambda>c. c\<lparr> currentAmount := js_add (currentAmount c) (tx_amount updated) \<rparr>) reversed
               else reversed)
         else getCategory s j)"
proof -
  have "getCategory (snd (updateTransaction s i u)) j =
          getData cat_id (categories (snd (updateTransaction s i u))) j"
    by (simp add: getCategory_def)
  also have "\<dots> = (let updated = spread_transaction existing u in
      if tx_categoryId existing \<noteq> tx_categoryId updated \<or> tx_amount existing \<noteq> tx_amount updated
      then getCategory (snd (category_effect (snd (category_effect s existing (- tx_amount existing)))
                              updated (tx_amount updated))) j
      else getCategory s j)"
    by (simp add: updateTransaction_categories [OF assms] Let_def getCategory_def)
  finally show ?thesis
    by (simp add: Let_def category_effect_getCategory js_add_uminus)
qed

lemma updateTransaction_getTransaction:
  assumes "getTransaction s i = Some existing"
  shows "getTransaction (snd (updateTransaction s i u)) j =
     (if j = i then Some (spread_transaction existing u) else getTransaction s j)"
proof -
  have i: "tx_id existing = i"
    using assms getData_Some [of tx_id "transactions s" i existing] by (simp add: getTransaction_def)
  have "transactions (snd (updateTransaction s i u)) =
          updateData tx_id (transactions s) (spread_transaction existing u)"
    by (simp add: updateTransaction_def Let_def assms case_category_effect case_adjust_account
                  adjust_account_frame category_effect_frame swallow_def)
  then show ?thesis
    by (simp add: getTransaction_def getData_updateData i)
qed

subsection \<open>The create, update, delete scenario\<close>

text \<open>
  Claim C7.  Let category C exist with \<open>currentAmount\<close> 0 and let an untagged transaction
  (no "transfer" tag) of amount -25000 reference C.  Creating it leaves C at -25000;
  updating its amount to -10000 leaves C at -10000; deleting it leaves C at 0.  The three
  calls succeed and change no other field of C.
\<close>

theorem create_update_delete_scenario:
  assumes "getCategory s cid = Some c" and "currentAmount c = 0"
      and "truthy cid" and "cid \<noteq> UNASSIGNED_CATEGORY_ID"
      and "tx_categoryId t = Some cid" and "\<not> tags_includes (tx_tags t) ''transfer''" and "tx_amount t = - 25000"
      and "getTransaction s new_id = None"
  shows "let r1 = createTransaction s t new_id;
             r2 = updateTransaction (snd r1) new_id (only_amount (- 10000));
             r3 = deleteTransaction (snd r2) new_id
         in fst r1 = Inr (t\<lparr> tx_id := new_id \<rparr>)
          \<and> getCategory (snd r1) cid = Some (c\<lparr> currentAmount := - 25000 \<rparr>)
          \<and> fst r2 = Inr (t\<lparr> tx_id := new_id, tx_amount := - 10000 \<rparr>)
          \<and> getCategory (snd r2) cid = Some (c\<lparr> currentAmount := - 10000 \<rparr>)
          \<and> fst r3 = Inr ()
          \<and> getCategory (snd r3) cid = Some (c\<lparr> currentAmount := 0 \<rparr>)"
proof -
  let ?t1 = "t\<lparr> tx_id := new_id \<rparr>"
  let ?t2 = "t\<lparr> tx_id := new_id, tx_amount := - 10000 \<rparr>"
  let ?s1 = "snd (createTransaction s t new_id)"
  let ?s2 = "snd (updateTransaction ?s1 new_id (only_amount (- 10000)))"
  let ?s3 = "snd (deleteTransaction ?s2 new_id)"
  have target: "category_effect_target t = Some cid"
    using assms(3-6) by (simp add: category_effect_target_def)
  have target2: "category_effect_target ?t2 = Some cid"
    using assms(3-6) by (simp add: category_effect_target_def)
  have f1: "fst (createTransaction s t new_id) = Inr ?t1"
    by (rule createTransaction_fst [OF assms(8)])
  have c1: "getCategory ?s1 cid = Some (c\<lparr> currentAmount := - 25000 \<rparr>)"
    by (simp add: createTransaction_getCategory [OF assms(8)] target assms(1,2,7)
                  js_add_safe safe_integer_def MAX_SAFE_INTEGER_def)
  have stored1: "getTransaction ?s1 new_id = Some ?t1"
    by (simp add: createTransaction_getTransaction [OF assms(8)])
  have f2: "fst (updateTransaction ?s1 new_id (only_amount (- 10000))) = Inr ?t2"
    by (simp add: updateTransaction_fst [OF stored1] spread_only_amount)
  have c2: "getCategory ?s2 cid = Some (c\<lparr> currentAmount := - 10000 \<rparr>)"
    by (simp add: updateTransaction_getCategory [OF stored1] spread_only_amount Let_def
                  target target2 c1 assms(7)
                  js_add_safe js_sub_safe safe_integer_def MAX_SAFE_INTEGER_def)
  have stored2: "getTransaction ?s2 new_id = Some ?t2"
    by (simp add: updateTransaction_getTransaction [OF stored1] spread_only_amount)
  have f3: "fst (deleteTransaction ?s2 new_id) = Inr ()"
    by (rule deleteTransaction_fst [OF stored2])
  have c3: "getCategory ?s3 cid = Some (c\<lparr> currentAmount := 0 \<rparr>)"
    by (simp add: deleteTransaction_getCategory [OF stored2] target2 c2
                  js_sub_safe safe_integer_def MAX_SAFE_INTEGER_def)
  show ?thesis
    unfolding Let_def using f1 c1 f2 c2 f3 c3 by simp
qed

theorem create_update_delete_scenario_witness:
  "getCategory groceries_db ''c1'' = Some (example_category ''c1'' ''Groceries'' 0)
   \<and> currentAmount (example_category ''c1'' ''Groceries'' 0) = 0
   \<and> truthy ''c1'' \<and> ''c1'' \<noteq> UNASSIGNED_CATEGORY_ID
   \<and> tx_categoryId groceries_expense = Some ''c1'' \<and> tx_tags groceries_expense = None
   \<and> tx_amount groceries_expense = - 25000
   \<and> getTransaction groceries_db ''x1'' = None
   \<and> getCategory (snd (createTransaction groceries_db groceries_expense ''x1'')) ''c1''
       = Some (example_category ''c1'' ''Groceries'' (- 25000))
   \<and> getCategory
        (snd (updateTransaction (snd (createTransaction groceries_db groceries_expense ''x1''))
                ''x1'' (only_amount (- 10000)))) ''c1''
       = Some (example_category ''c1'' ''Groceries'' (- 10000))
   \<and> getCategory
        (snd (deleteTransaction
                (snd (updateTransaction (snd (createTransaction groceries_db groceries_expense ''x1''))
                        ''x1'' (only_amount (- 10000)))) ''x1'')) ''c1''
       = Some (example_category ''c1'' ''Groceries'' 0)"
proof -
  have h1: "getCategory groceries_db ''c1'' = Some (example_category ''c1'' ''Groceries'' 0)"
    by (rule getCategory_groceries_db)
  have h2: "currentAmount (example_category ''c1'' ''Groceries'' 0) = 0"
    by (simp add: example_category_def)
  have h3: "truthy ''c1''" by (simp add: truthy_def)
  have h4: "''c1'' \<noteq> UNASSIGNED_CATEGORY_ID" by (simp add: UNASSIGNED_CATEGORY_ID_def)
  have h5: "tx_categoryId groceries_expense = Some ''c1''"
    by (simp add: groceries_expense_def example_transaction_def)
  have h6: "tx_tags groceries_expense = None"
    by (simp add: groceries_expense_def example_transaction_def)
  have h7: "tx_amount groceries_expense = - 25000"
    by (simp add: groceries_expense_def example_transaction_def)
  have h8: "getTransaction groceries_db ''x1'' = None"
    by (rule getTransaction_groceries_db)
  have h6': "\<not> tags_includes (tx_tags groceries_expense) ''transfer''"
    by (simp add: h6)
  from create_update_delete_scenario [OF h1 h2 h3 h4 h5 h6' h7 h8] h1 h2 h3 h4 h5 h6 h7 h8
  show ?thesis
    by (simp add: Let_def example_category_def)
qed

subsection \<open>Rolling back an account transfer\<close>

lemma updateAccountBalance_frame:
  "categories (snd (updateAccountBalance s i v)) = categories s"
  "transactions (snd (updateAccountBalance s i v)) = transactions s"
  "transfers (snd (updateAccountBalance s i v)) = transfers s"
  "budgets (snd (updateAccountBalance s i v)) = budgets s"
  by (simp_all add: updateAccountBalance_def updateAccount_def Let_def split: option.splits)

lemma updateAccountBalance_getAccount:
  "getAccount s i = Some a \<Longrightarrow>
   getAccount (snd (updateAccountBalance s i v)) j =
     (if j = i then Some (a\<lparr> balance := v \<rparr>) else getAccount s j)"
  by (auto simp: updateAccountBalance_Some getAccount_def getData_updateData dest: getData_Some)

text \<open>A balance write on an existing account fails only when the engine rejects it.\<close>

lemma rejectable_updateAccountBalance:
  assumes "getAccount s i = Some a"
  shows "rejectable rejected (\<lambda>st. updateAccountBalance st i v) s =
           (if rejected then (Inl RequestFailed, s)
            else (Inr (), snd (updateAccountBalance s i v)))"
  by (simp add: rejectable_def updateAccountBalance_Some [OF assms])

text \<open>Two balance writes on existing accounts, each accepted or rejected.\<close>

lemma both_updateAccountBalance:
  fixes p q :: bool and v w :: int
  assumes "getAccount s i = Some a" and "getAccount s j = Some b"
  defines "r \<equiv> both (rejectable p (\<lambda>st. updateAccountBalance st i v))
                     (rejectable q (\<lambda>st. updateAccountBalance st j w)) s"
  shows "fst r = (if p \<or> q then Inl RequestFailed else Inr ())"
    and "getAccount (snd r) k =
           (if k = j \<and> \<not> q then Some ((if j = i \<and> \<not> p then a\<lparr> balance := v \<rparr> else b)\<lparr> balance := w \<rparr>)
            else if k = i \<and> \<not> p then Some (a\<lparr> balance := v \<rparr>)
            else getAccount s k)"
    and "transactions (snd r) = transactions s"
proof -
  define s1 where "s1 = (if p then s else snd (updateAccountBalance s i v))"
  have r1: "rejectable p (\<lambda>st. updateAccountBalance st i v) s
              = (if p then Inl RequestFailed else Inr (), s1)"
    by (simp add: rejectable_updateAccountBalance [OF assms(1)] s1_def)
  have g1: "getAccount s1 j = Some (if j = i \<and> \<not> p then a\<lparr> balance := v \<rparr> else b)"
    by (simp add: s1_def updateAccountBalance_getAccount [OF assms(1)] assms(2))
  define s2 where "s2 = (if q then s1 else snd (updateAccountBalance s1 j w))"
  have r2: "rejectable q (\<lambda>st. updateAccountBalance st j w) s1
              = (if q then Inl RequestFailed else Inr (), s2)"
    by (simp add: rejectable_updateAccountBalance [OF g1] s2_def)
  have b: "r = (if p \<or> q then Inl RequestFailed else Inr (), s2)"
  proof (cases p)
    case True
    with r1 have "rejectable p (\<lambda>st. updateAccountBalance st i v) s = (Inl RequestFailed, s1)"
      by simp
    then have "r = (Inl RequestFailed, snd (rejectable q (\<lambda>st. updateAccountBalance st j w) s1))"
      unfolding r_def both_def by (simp only: prod.case sum.case)
    also have "\<dots> = (Inl RequestFailed, s2)"
      by (simp add: r2)
    finally show ?thesis using True by simp
  next
    case False
    with r1 have "rejectable p (\<lambda>st. updateAccountBalance st i v) s = (Inr (), s1)"
      by simp
    then have "r = (case rejectable q (\<lambda>st. updateAccountBalance st j w) s1 of
                      (Inl e, s2) \<Rightarrow> (Inl e, s2)
                    | (Inr b, s2) \<Rightarrow> (Inr (), s2))"
      unfolding r_def both_def by (simp only: prod.case sum.case)
    also have "\<dots> = (if q then Inl RequestFailed else Inr (), s2)"
      unfolding r2 by simp
    finally show ?thesis using False by simp
  qed
  show "fst r = (if p \<or> q then Inl RequestFailed else Inr ())"
    by (simp add: b)
  show "getAccount (snd r) k =
           (if k = j \<and> \<not> q then Some ((if j = i \<and> \<not> p then a\<lparr> balance := v \<rparr> else b)\<lparr> balance := w \<rparr>)
            else if k = i \<and> \<not> p then Some (a\<lparr> balance := v \<rparr>)
            else getAccount s k)"
    by (simp add: b s2_def updateAccountBalance_getAccount [OF g1])
       (simp add: s1_def updateAccountBalance_getAccount [OF assms(1)])
  show "transactions (snd r) = transactions s"
    by (simp add: b s2_def s1_def updateAccountBalance_frame)
qed

text \<open>A leg of an account transfer goes through createTransaction without a balance effect.\<close>

lemma account_transfer_transaction_no_effect:
  "category_effect_target (account_transfer_transaction d new_id transferId amount description ty account) = None"
  "\<not> account_effect_applies (account_transfer_transaction d new_id transferId amount description ty account)"
  by (simp_all add: account_transfer_transaction_def category_effect_target_def account_effect_applies_def)

lemma createTransaction_no_effect:
  assumes "category_effect_target t = None" and "\<not> account_effect_applies t"
  shows "createTransaction s t new_id =
     (case getTransaction s new_id of
        Some old \<Rightarrow> (Inl (AddFailed TRANSACTIONS new_id), s)
      | None \<Rightarrow> (Inr (t\<lparr> tx_id := new_id \<rparr>),
                 s\<lparr> transactions := insort_key tx_id (t\<lparr> tx_id := new_id \<rparr>) (transactions s),
                    writes := writes s @ [Added TRANSACTIONS new_id] \<rparr>))"
  using assms
  by (simp add: createTransaction_def Let_def category_effect_def addData_def getTransaction_def
           split: option.splits)

lemma rejectable_createTransaction_no_effect:
  assumes "category_effect_target t = None" and "\<not> account_effect_applies t"
  shows "rejectable rejected (\<lambda>st. createTransaction st t new_id) s =
     (case getTransaction s new_id of
        Some old \<Rightarrow> (Inl (AddFailed TRANSACTIONS new_id), s)
      | None \<Rightarrow>
          if rejected then (Inl RequestFailed, s)
          else (Inr (t\<lparr> tx_id := new_id \<rparr>),
                s\<lparr> transactions := insort_key tx_id (t\<lparr> tx_id := new_id \<rparr>) (transactions s),
                   writes := writes s @ [Added TRANSACTIONS new_id] \<rparr>))"
  by (simp add: rejectable_def createTransaction_no_effect [OF assms] split: option.splits)

text \<open>
  The outcome of a transfer whose two balance writes are accepted and whose pair of legs
  is not created: the call is the attempt to restore the two balances, made on a
  database whose account store holds the two written balances.
\<close>

lemma transferBetweenAccounts_legs_failed:
  assumes fa: "getAccount s (fromAccountId d) = Some fromAccount"
      and ta: "getAccount s (toAccountId d) = Some toAccount"
      and funds: "\<not> balance fromAccount < atd_amount d"
      and written: "\<not> engine Debit" "\<not> engine Credit"
      and failed: "engine OutgoingLeg \<or> getTransaction s from_tx_id \<noteq> None
                   \<or> engine IncomingLeg \<or> to_tx_id = from_tx_id
                   \<or> getTransaction s to_tx_id \<noteq> None"
  shows "\<exists>e s3.
           transferBetweenAccounts engine s d transferId from_tx_id to_tx_id =
             (case both (rejectable (engine RestoreSource)
                           (\<lambda>st. updateAccountBalance st (fromAccountId d) (balance fromAccount)))
                        (rejectable (engine RestoreDestination)
                           (\<lambda>st. updateAccountBalance st (toAccountId d) (balance toAccount)))
                        s3 of
                (Inl e', s4) \<Rightarrow> (Inl e', s4)
              | (Inr u', s4) \<Rightarrow> (Inl (TransferTransactionsFailed e), s4))
         \<and> getAccount s3 (fromAccountId d) =
             Some (if fromAccountId d = toAccountId d
                   then fromAccount\<lparr> balance := js_add (balance toAccount) (atd_amount d) \<rparr>
                   else fromAccount\<lparr> balance := js_sub (balance fromAccount) (atd_amount d) \<rparr>)
         \<and> getAccount s3 (toAccountId d) =
             Some (toAccount\<lparr> balance := js_add (balance toAccount) (atd_amount d) \<rparr>)
         \<and> (\<forall>k. k \<noteq> fromAccountId d \<longrightarrow> k \<noteq> toAccountId d \<longrightarrow> getAccount s3 k = getAccount s k)"
proof -
  let ?from = "fromAccountId d" and ?to = "toAccountId d"
  let ?debit = "rejectable (engine Debit)
                  (\<lambda>st. updateAccountBalance st ?from (js_sub (balance fromAccount) (atd_amount d)))"
  let ?credit = "rejectable (engine Credit)
                   (\<lambda>st. updateAccountBalance st ?to (js_add (balance toAccount) (atd_amount d)))"
  define s1 where "s1 = snd (both ?debit ?credit s)"
  have same: "?from = ?to \<Longrightarrow> fromAccount = toAccount"
    using fa ta by simp
  have B: "both ?debit ?credit s = (Inr (), s1)"
    using both_updateAccountBalance(1) [OF fa ta, of "engine Debit" _ "engine Credit"] written
    by (simp add: s1_def prod_eq_iff)
  have g1: "getAccount s1 k =
           (if k = ?to then Some (toAccount\<lparr> balance := js_add (balance toAccount) (atd_amount d) \<rparr>)
            else if k = ?from then Some (fromAccount\<lparr> balance := js_sub (balance fromAccount) (atd_amount d) \<rparr>)
            else getAccount s k)" for k
    unfolding s1_def using written same
    by (auto simp: both_updateAccountBalance(2) [OF fa ta])
  have t1: "getTransaction s1 k = getTransaction s k" for k
    unfolding s1_def by (rule getTransaction_cong) (rule both_updateAccountBalance(3) [OF fa ta])
  define description where
    "description = or_default (atd_description d)
                     (''Transfer from '' @ acc_name fromAccount @ '' to '' @ acc_name toAccount)"
  define leg1 where
    "leg1 = account_transfer_transaction d from_tx_id transferId (- atd_amount d)
              (description @ '' (Outgoing)'') EXPENSE ?from"
  define leg2 where
    "leg2 = account_transfer_transaction d to_tx_id transferId (atd_amount d)
              (description @ '' (Incoming)'') INCOME ?to"
  define T where
    "T = (case rejectable (engine OutgoingLeg) (\<lambda>st. createTransaction st leg1 from_tx_id) s1 of
            (Inl e, s2) \<Rightarrow> (Inl e, s2)
          | (Inr fromTransaction, s2) \<Rightarrow>
              (case rejectable (engine IncomingLeg) (\<lambda>st. createTransaction st leg2 to_tx_id) s2 of
                 (Inl e, s3) \<Rightarrow> (Inl e, s3)
               | (Inr toTransaction, s3) \<Rightarrow> (Inr (fromTransaction, toTransaction), s3)))"
  let ?restore = "both (rejectable (engine RestoreSource)
                          (\<lambda>st. updateAccountBalance st ?from (balance fromAccount)))
                       (rejectable (engine RestoreDestination)
                          (\<lambda>st. updateAccountBalance st ?to (balance toAccount)))"
  have R: "transferBetweenAccounts engine s d transferId from_tx_id to_tx_id =
             (case T of
                (Inr r, s3) \<Rightarrow> (Inr r, s3)
              | (Inl e, s3) \<Rightarrow>
                  (case ?restore s3 of
                     (Inl e', s4) \<Rightarrow> (Inl e', s4)
                   | (Inr u', s4) \<Rightarrow> (Inl (TransferTransactionsFailed e), s4)))"
    unfolding transferBetweenAccounts_def T_def leg1_def leg2_def description_def Let_def
    by (simp add: fa ta funds B)
  have c1: "rejectable rejected (\<lambda>st. createTransaction st leg1 from_tx_id) st =
     (case getTransaction st from_tx_id of
        Some old \<Rightarrow> (Inl (AddFailed TRANSACTIONS from_tx_id), st)
      | None \<Rightarrow>
          if rejected then (Inl RequestFailed, st)
          else (Inr (leg1\<lparr> tx_id := from_tx_id \<rparr>),
                st\<lparr> transactions := insort_key tx_id (leg1\<lparr> tx_id := from_tx_id \<rparr>) (transactions st),
                    writes := writes st @ [Added TRANSACTIONS from_tx_id] \<rparr>))" for st rejected
    unfolding leg1_def
    by (rule rejectable_createTransaction_no_effect) (rule account_transfer_transaction_no_effect)+
  have c2: "rejectable rejected (\<lambda>st. createTransaction st leg2 to_tx_id) st =
     (case getTransaction st to_tx_id of
        Some old \<Rightarrow> (Inl (AddFailed TRANSACTIONS to_tx_id), st)
      | None \<Rightarrow>
          if rejected then (Inl RequestFailed, st)
          else (Inr (leg2\<lparr> tx_id := to_tx_id \<rparr>),
                st\<lparr> transactions := insort_key tx_id (leg2\<lparr> tx_id := to_tx_id \<rparr>) (transactions st),
                    writes := writes st @ [Added TRANSACTIONS to_tx_id] \<rparr>))" for st rejected
    unfolding leg2_def
    by (rule rejectable_createTransaction_no_effect) (rule account_transfer_transaction_no_effect)+
  have "\<exists>e s3. T = (Inl e, s3) \<and> accounts s3 = accounts s1"
  proof (cases "getTransaction s from_tx_id \<noteq> None \<or> engine OutgoingLeg")
    case True
    then show ?thesis by (auto simp: T_def c1 t1 split: option.splits)
  next
    case False
    then have None: "getTransaction s from_tx_id = None" and out: "\<not> engine OutgoingLeg"
      by simp_all
    let ?s2 = "s1\<lparr> transactions := insort_key tx_id (leg1\<lparr> tx_id := from_tx_id \<rparr>) (transactions s1),
                   writes := writes s1 @ [Added TRANSACTIONS from_tx_id] \<rparr>"
    have fresh1: "getData tx_id (transactions s1) from_tx_id = None"
      using None t1 [of from_tx_id] by (simp add: getTransaction_def)
    have "getTransaction ?s2 to_tx_id \<noteq> None \<or> engine IncomingLeg"
    proof (cases "to_tx_id = from_tx_id")
      case True
      then show ?thesis
        using getData_insort_same [of tx_id "transactions s1" "leg1\<lparr> tx_id := from_tx_id \<rparr>"] fresh1
        by (simp add: getTransaction_def)
    next
      case False
      then have "getTransaction s to_tx_id \<noteq> None \<or> engine IncomingLeg"
        using failed None out by auto
      then show ?thesis
        using False t1 [of to_tx_id]
        by (auto simp: getTransaction_def getData_insort_other)
    qed
    then show ?thesis
      using None out by (auto simp: T_def c1 c2 t1 split: option.splits)
  qed
  then obtain e s3 where T: "T = (Inl e, s3)" and a3: "accounts s3 = accounts s1" by blast
  have g3: "getAccount s3 k = getAccount s1 k" for k
    by (rule getAccount_cong) (rule a3)
  have "transferBetweenAccounts engine s d transferId from_tx_id to_tx_id =
          (case ?restore s3 of
             (Inl e', s4) \<Rightarrow> (Inl e', s4)
           | (Inr u', s4) \<Rightarrow> (Inl (TransferTransactionsFailed e), s4))"
    unfolding R T by simp
  moreover have "getAccount s3 ?from =
             Some (if ?from = ?to
                   then fromAccount\<lparr> balance := js_add (balance toAccount) (atd_amount d) \<rparr>
                   else fromAccount\<lparr> balance := js_sub (balance fromAccount) (atd_amount d) \<rparr>)"
    using same by (auto simp: g3 g1)
  moreover have "getAccount s3 ?to =
             Some (toAccount\<lparr> balance := js_add (balance toAccount) (atd_amount d) \<rparr>)"
    by (simp add: g3 g1)
  moreover have "\<forall>k. k \<noteq> ?from \<longrightarrow> k \<noteq> ?to \<longrightarrow> getAccount s3 k = getAccount s k"
    by (simp add: g3 g1)
  ultimately show ?thesis by blast
qed


text \<open>The outcome of the attempt to restore the two balances.\<close>

lemma transferBetweenAccounts_restore:
  fixes transferId :: string
  assumes fa: "getAccount s (fromAccountId d) = Some fromAccount"
      and ta: "getAccount s (toAccountId d) = Some toAccount"
      and funds: "\<not> balance fromAccount < atd_amount d"
      and written: "\<not> engine Debit" "\<not> engine Credit"
      and failed: "engine OutgoingLeg \<or> getTransaction s from_tx_id \<noteq> None
                   \<or> engine IncomingLeg \<or> to_tx_id = from_tx_id
                   \<or> getTransaction s to_tx_id \<noteq> None"
  defines "r \<equiv> transferBetweenAccounts engine s d transferId from_tx_id to_tx_id"
  shows "\<exists>e. fst r = Inl (if engine RestoreSource \<or> engine RestoreDestination then RequestFailed
                           else TransferTransactionsFailed e)"
    and "getAccount (snd r) (fromAccountId d) =
           Some (if engine RestoreSource \<and> fromAccountId d \<noteq> toAccountId d
                 then fromAccount\<lparr> balance := js_sub (balance fromAccount) (atd_amount d) \<rparr>
                 else if engine RestoreSource \<and> engine RestoreDestination
                 then fromAccount\<lparr> balance := js_add (balance toAccount) (atd_amount d) \<rparr>
                 else fromAccount)"
    and "getAccount (snd r) (toAccountId d) =
           Some (if engine RestoreDestination \<and> (fromAccountId d \<noteq> toAccountId d \<or> engine RestoreSource)
                 then toAccount\<lparr> balance := js_add (balance toAccount) (atd_amount d) \<rparr>
                 else toAccount)"
proof -
  let ?from = "fromAccountId d" and ?to = "toAccountId d"
  let ?restore = "both (rejectable (engine RestoreSource)
                          (\<lambda>st. updateAccountBalance st ?from (balance fromAccount)))
                       (rejectable (engine RestoreDestination)
                          (\<lambda>st. updateAccountBalance st ?to (balance toAccount)))"
  from transferBetweenAccounts_legs_failed [OF fa ta funds written failed, of transferId]
  obtain e s3 where
        res: "r = (case ?restore s3 of
                     (Inl e', s4) \<Rightarrow> (Inl e', s4)
                   | (Inr u', s4) \<Rightarrow> (Inl (TransferTransactionsFailed e), s4))"
    and g3_from: "getAccount s3 ?from =
             Some (if ?from = ?to
                   then fromAccount\<lparr> balance := js_add (balance toAccount) (atd_amount d) \<rparr>
                   else fromAccount\<lparr> balance := js_sub (balance fromAccount) (atd_amount d) \<rparr>)"
    and g3_to: "getAccount s3 ?to =
             Some (toAccount\<lparr> balance := js_add (balance toAccount) (atd_amount d) \<rparr>)"
    unfolding r_def by blast
  have same: "?from = ?to \<Longrightarrow> fromAccount = toAccount"
    using fa ta by simp
  note rb = both_updateAccountBalance [OF g3_from g3_to, of "engine RestoreSource" "balance fromAccount"
                                         "engine RestoreDestination" "balance toAccount"]
  have f: "fst r = (if engine RestoreSource \<or> engine RestoreDestination then Inl RequestFailed
                    else Inl (TransferTransactionsFailed e))"
    and s: "snd r = snd (?restore s3)"
    using rb(1) unfolding res by (cases "?restore s3"; auto split: sum.splits if_splits)+
  show "\<exists>e. fst r = Inl (if engine RestoreSource \<or> engine RestoreDestination then RequestFailed
                           else TransferTransactionsFailed e)"
    by (simp add: f)
  show "getAccount (snd r) ?from =
           Some (if engine RestoreSource \<and> ?from \<noteq> ?to
                 then fromAccount\<lparr> balance := js_sub (balance fromAccount) (atd_amount d) \<rparr>
                 else if engine RestoreSource \<and> engine RestoreDestination
                 then fromAccount\<lparr> balance := js_add (balance toAccount) (atd_amount d) \<rparr>
                 else fromAccount)"
    using same by (auto simp: s rb(2) g3_from)
  show "getAccount (snd r) ?to =
           Some (if engine RestoreDestination \<and> (?from \<noteq> ?to \<or> engine RestoreSource)
                 then toAccount\<lparr> balance := js_add (balance toAccount) (atd_amount d) \<rparr>
                 else toAccount)"
    using same by (auto simp: s rb(2) g3_to g3_from)
qed

text \<open>
  Claim C6 (amended).  Let both accounts exist and the source hold at least the amount,
  let the storage engine accept the two balance writes, and let the creation of the pair
  of linked transactions fail: the engine rejects the request of a leg, or the identifier
  drawn for a leg is already a key of the store.  Then \<open>transferBetweenAccounts\<close> throws.
  An account whose restoring write the engine accepts ends with exactly the record it had
  before the call.  When both restoring writes are accepted the error is
  "Failed to create transfer transactions"; otherwise it is the error of the rejected
  write, and an account whose restoring write is rejected, the two accounts being
  distinct, keeps the balance written by the transfer.
\<close>

theorem transferBetweenAccounts_rollback:
  assumes "getAccount s (fromAccountId d) = Some fromAccount"
      and "getAccount s (toAccountId d) = Some toAccount"
      and "\<not> balance fromAccount < atd_amount d"
      and "\<not> engine Debit" and "\<not> engine Credit"
      and "engine OutgoingLeg \<or> getTransaction s from_tx_id \<noteq> None
           \<or> engine IncomingLeg \<or> to_tx_id = from_tx_id
           \<or> getTransaction s to_tx_id \<noteq> None"
  shows "let r = transferBetweenAccounts engine s d transferId from_tx_id to_tx_id in
           (\<exists>e. fst r = Inl (if engine RestoreSource \<or> engine RestoreDestination then RequestFailed
                              else TransferTransactionsFailed e))
         \<and> (\<not> engine RestoreSource \<longrightarrow> getAccount (snd r) (fromAccountId d) = Some fromAccount)
         \<and> (\<not> engine RestoreDestination \<longrightarrow> getAccount (snd r) (toAccountId d) = Some toAccount)
         \<and> (engine RestoreSource \<and> fromAccountId d \<noteq> toAccountId d \<longrightarrow>
              getAccount (snd r) (fromAccountId d) =
                Some (fromAccount\<lparr> balance := js_sub (balance fromAccount) (atd_amount d) \<rparr>))
         \<and> (engine RestoreDestination \<and> fromAccountId d \<noteq> toAccountId d \<longrightarrow>
              getAccount (snd r) (toAccountId d) =
                Some (toAccount\<lparr> balance := js_add (balance toAccount) (atd_amount d) \<rparr>))"
proof -
  note outcome = transferBetweenAccounts_restore [OF assms, of transferId]
  show ?thesis
    unfolding Let_def
  proof (intro conjI impI)
    show "\<exists>e. fst (transferBetweenAccounts engine s d transferId from_tx_id to_tx_id) =
               Inl (if engine RestoreSource \<or> engine RestoreDestination then RequestFailed
                    else TransferTransactionsFailed e)"
      by (rule outcome(1))
  qed (simp_all add: outcome(2,3))
qed

lemma getAccount_two_accounts_db_B:
  "getAccount two_accounts_db ''B'' = Some (example_account ''B'' ''b1'' 0)"
  by (simp add: getAccount_def getData_def two_accounts_db_def empty_db_def example_account_def)

lemma example_account_transfer_accounts:
  "getAccount two_accounts_db (fromAccountId (example_account_transfer 40000))
     = Some (example_account ''A'' ''b1'' 100000)"
  "getAccount two_accounts_db (toAccountId (example_account_transfer 40000))
     = Some (example_account ''B'' ''b1'' 0)"
  "\<not> balance (example_account ''A'' ''b1'' 100000) < atd_amount (example_account_transfer 40000)"
  "fromAccountId (example_account_transfer 40000) = ''A''"
  "toAccountId (example_account_transfer 40000) = ''B''"
  by (simp_all add: example_account_transfer_def getAccount_two_accounts_db_A
                    getAccount_two_accounts_db_B example_account_def)

theorem transferBetweenAccounts_rollback_witness:
  "getAccount two_accounts_db (fromAccountId (example_account_transfer 40000))
     = Some (example_account ''A'' ''b1'' 100000)
   \<and> getAccount two_accounts_db (toAccountId (example_account_transfer 40000))
     = Some (example_account ''B'' ''b1'' 0)
   \<and> \<not> balance (example_account ''A'' ''b1'' 100000) < atd_amount (example_account_transfer 40000)
   \<and> \<not> incoming_rejected Debit \<and> \<not> incoming_rejected Credit
   \<and> getTransaction two_accounts_db ''x1'' = None \<and> getTransaction two_accounts_db ''x2'' = None
   \<and> incoming_rejected IncomingLeg
   \<and> \<not> incoming_rejected RestoreSource \<and> \<not> incoming_rejected RestoreDestination
   \<and> (\<exists>e. fst (transferBetweenAccounts incoming_rejected two_accounts_db
                   (example_account_transfer 40000) ''t'' ''x1'' ''x2'')
             = Inl (TransferTransactionsFailed e))
   \<and> getAccount (snd (transferBetweenAccounts incoming_rejected two_accounts_db
                        (example_account_transfer 40000) ''t'' ''x1'' ''x2''))
        ''A'' = Some (example_account ''A'' ''b1'' 100000)
   \<and> getAccount (snd (transferBetweenAccounts incoming_rejected two_accounts_db
                        (example_account_transfer 40000) ''t'' ''x1'' ''x2''))
        ''B'' = Some (example_account ''B'' ''b1'' 0)"
proof -
  have written: "\<not> incoming_rejected Debit" "\<not> incoming_rejected Credit"
    by (simp_all add: incoming_rejected_def)
  have engine: "incoming_rejected IncomingLeg" "\<not> incoming_rejected RestoreSource"
               "\<not> incoming_rejected RestoreDestination"
    by (simp_all add: incoming_rejected_def)
  have failed: "incoming_rejected OutgoingLeg \<or> getTransaction two_accounts_db ''x1'' \<noteq> None
                \<or> incoming_rejected IncomingLeg \<or> ''x2'' = ''x1''
                \<or> getTransaction two_accounts_db ''x2'' \<noteq> None"
    by (simp add: incoming_rejected_def)
  from transferBetweenAccounts_rollback
         [OF example_account_transfer_accounts(1,2,3) written failed, of "''t''"]
  show ?thesis
    by (simp add: Let_def example_account_transfer_accounts getTransaction_two_accounts_db
                  getAccount_two_accounts_db_A getAccount_two_accounts_db_B written engine)
qed

text \<open>
  The claim as stated fails when the engine rejects the write that restores the source
  account: the call throws and account A, which held 100000 before the transfer of 40000,
  is left with 60000.  The identifiers of the two legs are fresh and distinct.
\<close>

theorem transferBetweenAccounts_rollback_rejected_counterexample:
  "map_option balance (getAccount two_accounts_db ''A'') = Some 100000
   \<and> getTransaction two_accounts_db ''x1'' = None \<and> getTransaction two_accounts_db ''x2'' = None
   \<and> fst (transferBetweenAccounts incoming_and_restore_rejected two_accounts_db
             (example_account_transfer 40000) ''t'' ''x1'' ''x2'') = Inl RequestFailed
   \<and> map_option balance
        (getAccount (snd (transferBetweenAccounts incoming_and_restore_rejected two_accounts_db
                            (example_account_transfer 40000) ''t'' ''x1'' ''x2'')) ''A'')
       = Some 60000"
proof -
  have written: "\<not> incoming_and_restore_rejected Debit" "\<not> incoming_and_restore_rejected Credit"
    by (simp_all add: incoming_and_restore_rejected_def)
  have engine: "incoming_and_restore_rejected RestoreSource"
    by (simp add: incoming_and_restore_rejected_def)
  have failed: "incoming_and_restore_rejected OutgoingLeg \<or> getTransaction two_accounts_db ''x1'' \<noteq> None
                \<or> incoming_and_restore_rejected IncomingLeg \<or> ''x2'' = ''x1''
                \<or> getTransaction two_accounts_db ''x2'' \<noteq> None"
    by (simp add: incoming_and_restore_rejected_def)
  have sub: "js_sub 100000 40000 = 60000"
    by (simp add: js_sub_safe safe_integer_def MAX_SAFE_INTEGER_def)
  note outcome = transferBetweenAccounts_restore
                   [OF example_account_transfer_accounts(1,2,3) written failed, of "''t''"]
  from outcome(1) have "fst (transferBetweenAccounts incoming_and_restore_rejected two_accounts_db
             (example_account_transfer 40000) ''t'' ''x1'' ''x2'') = Inl RequestFailed"
    by (simp add: engine)
  moreover from outcome(2)
  have "map_option balance
        (getAccount (snd (transferBetweenAccounts incoming_and_restore_rejected two_accounts_db
                            (example_account_transfer 40000) ''t'' ''x1'' ''x2'')) ''A'')
       = Some 60000"
    by (simp add: engine example_account_transfer_accounts(4,5)
                  example_account_def example_account_transfer_def sub)
  ultimately show ?thesis
    by (simp add: getAccount_two_accounts_db_A getTransaction_two_accounts_db example_account_def)
qed

subsection \<open>References to absent entities\<close>

lemma transferBetweenAccounts_absent:
  "getAccount s (fromAccountId d) = None \<or> getAccount s (toAccountId d) = None \<Longrightarrow>
   \<exists>e. is_NotFound e
     \<and> transferBetweenAccounts engine s d transferId from_tx_id to_tx_id = (Inl e, s)"
  by (auto simp: transferBetweenAccounts_def split: option.splits)

lemma createTransfer_absent:
  "(fromCategoryId input \<noteq> UNASSIGNED_CATEGORY_ID \<and> getCategory s (fromCategoryId input) = None)
   \<or> (toCategoryId input \<noteq> UNASSIGNED_CATEGORY_ID \<and> getCategory s (toCategoryId input) = None) \<Longrightarrow>
   \<exists>e. is_NotFound e \<and> createTransfer s input new_id tx_new_id = (Inl e, s)"
  by (auto simp: createTransfer_def Let_def split: option.splits)

lemma createTransaction_absent_category:
  assumes "category_effect_target t = Some c" and "getCategory s c = None"
      and "getTransaction s new_id = None"
  shows "fst (createTransaction s t new_id) = Inr (t\<lparr> tx_id := new_id \<rparr>)"
    and "categories (snd (createTransaction s t new_id)) = categories s"
    and "getTransaction (snd (createTransaction s t new_id)) new_id = Some (t\<lparr> tx_id := new_id \<rparr>)"
proof -
  show "fst (createTransaction s t new_id) = Inr (t\<lparr> tx_id := new_id \<rparr>)"
    by (rule createTransaction_fst [OF assms(3)])
  show "categories (snd (createTransaction s t new_id)) = categories s"
    using assms(1,2)
    by (simp add: createTransaction_fresh [OF assms(3)] Let_def adjust_account_frame
                  category_effect_def adjust_category_eq)
  show "getTransaction (snd (createTransaction s t new_id)) new_id = Some (t\<lparr> tx_id := new_id \<rparr>)"
    by (simp add: createTransaction_getTransaction [OF assms(3)])
qed

text \<open>
  Claim C5 (amended).  An operation addressed to an absent entity throws a "not found"
  error and returns the database it was given, write log included:
  \<open>transferBetweenAccounts\<close> with an absent source or destination account,
  \<open>updateTransaction\<close> and \<open>deleteTransaction\<close> on an absent transaction,
  \<open>updateCategory\<close> on an absent category, \<open>updateAccountBalance\<close> on an absent
  account, \<open>createTransfer\<close> naming an absent category other than the unassigned pool,
  and \<open>deleteTransfer\<close> on an absent transfer.  \<open>createTransaction\<close> is different:
  when the category its balance effect is due to is absent, it succeeds, leaves the
  category store alone and stores the transaction.
\<close>

theorem absent_reference:
  "(getAccount s (fromAccountId d) = None \<or> getAccount s (toAccountId d) = None \<longrightarrow>
      (\<exists>e. is_NotFound e
         \<and> transferBetweenAccounts engine s d transferId from_tx_id to_tx_id = (Inl e, s)))
   \<and> (getTransaction s i = None \<longrightarrow>
        updateTransaction s i u = (Inl TransactionNotFound, s)
        \<and> deleteTransaction s i = (Inl TransactionNotFound, s))
   \<and> (getCategory s c = None \<longrightarrow> updateCategory s c cu = (Inl CategoryNotFound, s))
   \<and> (getAccount s a = None \<longrightarrow> updateAccountBalance s a v = (Inl AccountNotFound, s))
   \<and> ((fromCategoryId input \<noteq> UNASSIGNED_CATEGORY_ID \<and> getCategory s (fromCategoryId input) = None)
        \<or> (toCategoryId input \<noteq> UNASSIGNED_CATEGORY_ID \<and> getCategory s (toCategoryId input) = None) \<longrightarrow>
        (\<exists>e. is_NotFound e \<and> createTransfer s input new_id tx_new_id = (Inl e, s)))
   \<and> (getTransfer s i = None \<longrightarrow> deleteTransfer s i = (Inl TransferNotFound, s))
   \<and> (category_effect_target t = Some c \<and> getCategory s c = None \<and> getTransaction s new_id = None \<longrightarrow>
        fst (createTransaction s t new_id) = Inr (t\<lparr> tx_id := new_id \<rparr>)
        \<and> categories (snd (createTransaction s t new_id)) = categories s
        \<and> getTransaction (snd (createTransaction s t new_id)) new_id = Some (t\<lparr> tx_id := new_id \<rparr>))"
proof -
  have "getTransaction s i = None \<Longrightarrow> updateTransaction s i u = (Inl TransactionNotFound, s)"
    by (simp add: updateTransaction_def)
  moreover have "getTransaction s i = None \<Longrightarrow> deleteTransaction s i = (Inl TransactionNotFound, s)"
    by (simp add: deleteTransaction_def)
  moreover have "getCategory s c = None \<Longrightarrow> updateCategory s c cu = (Inl CategoryNotFound, s)"
    by (simp add: updateCategory_def)
  moreover have "getAccount s a = None \<Longrightarrow> updateAccountBalance s a v = (Inl AccountNotFound, s)"
    by (simp add: updateAccountBalance_def)
  moreover have "getTransfer s i = None \<Longrightarrow> deleteTransfer s i = (Inl TransferNotFound, s)"
    by (simp add: deleteTransfer_def)
  ultimately show ?thesis
    using transferBetweenAccounts_absent [of s d engine transferId from_tx_id to_tx_id]
          createTransfer_absent [of input s new_id tx_new_id]
          createTransaction_absent_category [of t c s new_id]
    by blast
qed

lemma empty_db_lookups:
  "getAccount empty_db k = None" "getCategory empty_db k = None"
  "getTransaction empty_db k = None" "getTransfer empty_db k = None"
  by (simp_all add: empty_db_def getAccount_def getCategory_def getTransaction_def getTransfer_def
                    getData_def)

theorem absent_reference_witness:
  "getAccount empty_db (fromAccountId (example_account_transfer 40000)) = None
   \<and> (\<exists>e. is_NotFound e
          \<and> transferBetweenAccounts reliable_engine empty_db (example_account_transfer 40000)
               ''t'' ''x1'' ''x2''
            = (Inl e, empty_db))
   \<and> getTransaction empty_db ''x0'' = None
   \<and> updateTransaction empty_db ''x0'' (only_amount 7) = (Inl TransactionNotFound, empty_db)
   \<and> deleteTransaction empty_db ''x0'' = (Inl TransactionNotFound, empty_db)
   \<and> getCategory empty_db ''c1'' = None
   \<and> updateCategory empty_db ''c1'' (only_currentAmount 7) = (Inl CategoryNotFound, empty_db)
   \<and> getAccount empty_db ''A'' = None
   \<and> updateAccountBalance empty_db ''A'' 7 = (Inl AccountNotFound, empty_db)
   \<and> toCategoryId (example_transfer ''r0'' ''unassigned'' ''c1'' 7 None) \<noteq> UNASSIGNED_CATEGORY_ID
   \<and> (\<exists>e. is_NotFound e \<and> createTransfer empty_db (example_transfer ''r0'' ''unassigned'' ''c1'' 7 None) ''x1'' ''x1''
                            = (Inl e, empty_db))
   \<and> getTransfer empty_db ''x0'' = None
   \<and> deleteTransfer empty_db ''x0'' = (Inl TransferNotFound, empty_db)
   \<and> category_effect_target groceries_expense = Some ''c1''
   \<and> fst (createTransaction empty_db groceries_expense ''x1'') = Inr (groceries_expense\<lparr> tx_id := ''x1'' \<rparr>)
   \<and> categories (snd (createTransaction empty_db groceries_expense ''x1'')) = categories empty_db
   \<and> getTransaction (snd (createTransaction empty_db groceries_expense ''x1'')) ''x1''
       = Some (groceries_expense\<lparr> tx_id := ''x1'' \<rparr>)"
proof -
  have to: "toCategoryId (example_transfer ''r0'' ''unassigned'' ''c1'' 7 None) = ''c1''"
    by (simp add: example_transfer_def)
  have ne: "''c1'' \<noteq> UNASSIGNED_CATEGORY_ID"
    by (simp add: UNASSIGNED_CATEGORY_ID_def)
  have target: "category_effect_target groceries_expense = Some ''c1''"
    by (simp add: groceries_expense_def example_transaction_def category_effect_target_def
                  truthy_def UNASSIGNED_CATEGORY_ID_def)
  from absent_reference [where s = empty_db and d = "example_account_transfer 40000"
                            and engine = reliable_engine
                            and transferId = "''t''" and from_tx_id = "''x1''" and to_tx_id = "''x2''"
                            and i = "''x0''" and u = "only_amount 7" and c = "''c1''"
                            and cu = "only_currentAmount 7" and a = "''A''" and v = 7
                            and input = "example_transfer ''r0'' ''unassigned'' ''c1'' 7 None"
                            and new_id = "''x1''" and tx_new_id = "''x1''" and t = groceries_expense]
  show ?thesis
    by (simp add: empty_db_lookups to ne target)
qed

text \<open>
  The claim as stated fails for \<open>createTransaction\<close>: with a non-null, non-UNASSIGNED
  \<open>categoryId\<close> that names no category, the call returns the transaction and the only
  write is the one that stores it.
\<close>

theorem createTransaction_absent_category_counterexample:
  "tx_categoryId groceries_expense = Some ''c1''
   \<and> ''c1'' \<noteq> UNASSIGNED_CATEGORY_ID
   \<and> getCategory empty_db ''c1'' = None
   \<and> createTransaction empty_db groceries_expense ''x1'' =
       (Inr (groceries_expense\<lparr> tx_id := ''x1'' \<rparr>),
        empty_db\<lparr> transactions := [groceries_expense\<lparr> tx_id := ''x1'' \<rparr>],
                  writes := [Added TRANSACTIONS ''x1''] \<rparr>)"
proof -
  have target: "category_effect_target groceries_expense = Some ''c1''"
    by (simp add: groceries_expense_def example_transaction_def category_effect_target_def
                  truthy_def UNASSIGNED_CATEGORY_ID_def)
  have acc: "tx_accountId groceries_expense = ''A''" "tx_categoryId groceries_expense = Some ''c1''"
    by (simp_all add: groceries_expense_def example_transaction_def)
  have "createTransaction empty_db groceries_expense ''x1'' =
       (Inr (groceries_expense\<lparr> tx_id := ''x1'' \<rparr>),
        empty_db\<lparr> transactions := [groceries_expense\<lparr> tx_id := ''x1'' \<rparr>],
                  writes := [Added TRANSACTIONS ''x1''] \<rparr>)"
    by (simp add: createTransaction_fresh [OF empty_db_lookups(3)] Let_def category_effect_def target
                  adjust_category_eq adjust_account_eq empty_db_lookups acc)
       (simp add: empty_db_def)
  then show ?thesis
    by (simp add: acc empty_db_lookups UNASSIGNED_CATEGORY_ID_def)
qed

subsection \<open>Transfers through the unassigned pool\<close>

lemma transfer_transaction_no_effect:
  "category_effect_target (transfer_transaction input new_id amount ty UNASSIGNED_CATEGORY_ID) = None"
  "\<not> account_effect_applies (transfer_transaction input new_id amount ty category)"
  by (simp_all add: transfer_transaction_def category_effect_target_def account_effect_applies_def)

lemma transfer_transaction_tx_id [simp]:
  "(transfer_transaction input new_id amount ty category)\<lparr> tx_id := new_id \<rparr>
     = transfer_transaction input new_id amount ty category"
  "tx_id (transfer_transaction input new_id amount ty category) = new_id"
  by (simp_all add: transfer_transaction_def)

lemma createTransfer_from_unassigned:
  assumes "fromCategoryId input = UNASSIGNED_CATEGORY_ID"
      and "getCategory s (toCategoryId input) = Some c"
      and "getTransaction s tx_new_id = None"
      and "getTransfer s new_id = None"
  shows "createTransfer s input new_id tx_new_id =
     (Inr (input\<lparr> tr_id := new_id \<rparr>),
      s\<lparr> categories := updateData cat_id (categories s)
                          (c\<lparr> currentAmount := js_add (currentAmount c) (tr_amount input) \<rparr>),
         transactions := insort_key tx_id
                           (transfer_transaction input tx_new_id (- tr_amount input) EXPENSE
                              UNASSIGNED_CATEGORY_ID)
                           (transactions s),
         transfers := insort_key tr_id (input\<lparr> tr_id := new_id \<rparr>) (transfers s),
         writes := writes s @ [Added TRANSACTIONS tx_new_id, Put CATEGORIES (toCategoryId input),
                               Added TRANSFERS new_id] \<rparr>)"
proof -
  let ?t = "transfer_transaction input tx_new_id (- tr_amount input) EXPENSE UNASSIGNED_CATEGORY_ID"
  let ?s1 = "s\<lparr> transactions := insort_key tx_id ?t (transactions s),
                 writes := writes s @ [Added TRANSACTIONS tx_new_id] \<rparr>"
  have c: "createTransaction s ?t tx_new_id = (Inr ?t, ?s1)"
    by (simp add: createTransaction_no_effect [OF transfer_transaction_no_effect] assms(3))
  have g: "getCategory ?s1 (toCategoryId input) = Some c"
    using assms(2) by (simp add: getCategory_def)
  have fresh: "getData tr_id (transfers s) new_id = None"
    using assms(4) by (simp add: getTransfer_def)
  show ?thesis
    unfolding createTransfer_def Let_def
    by (simp add: assms(1,2) c updateCategory_Some [OF g] discard_def addData_def fresh)
qed

lemma createTransfer_to_unassigned:
  assumes "fromCategoryId input \<noteq> UNASSIGNED_CATEGORY_ID"
      and "toCategoryId input = UNASSIGNED_CATEGORY_ID"
      and "getCategory s (fromCategoryId input) = Some c"
      and "getTransaction s tx_new_id = None"
      and "getTransfer s new_id = None"
  shows "createTransfer s input new_id tx_new_id =
     (Inr (input\<lparr> tr_id := new_id \<rparr>),
      s\<lparr> categories := updateData cat_id (categories s)
                          (c\<lparr> currentAmount := js_sub (currentAmount c) (tr_amount input) \<rparr>),
         transactions := insort_key tx_id
                           (transfer_transaction input tx_new_id (tr_amount input) INCOME
                              UNASSIGNED_CATEGORY_ID)
                           (transactions s),
         transfers := insort_key tr_id (input\<lparr> tr_id := new_id \<rparr>) (transfers s),
         writes := writes s @ [Added TRANSACTIONS tx_new_id, Put CATEGORIES (fromCategoryId input),
                               Added TRANSFERS new_id] \<rparr>)"
proof -
  let ?t = "transfer_transaction input tx_new_id (tr_amount input) INCOME UNASSIGNED_CATEGORY_ID"
  let ?s1 = "s\<lparr> transactions := insort_key tx_id ?t (transactions s),
                 writes := writes s @ [Added TRANSACTIONS tx_new_id] \<rparr>"
  have c: "createTransaction s ?t tx_new_id = (Inr ?t, ?s1)"
    by (simp add: createTransaction_no_effect [OF transfer_transaction_no_effect] assms(4))
  have g: "getCategory ?s1 (fromCategoryId input) = Some c"
    using assms(3) by (simp add: getCategory_def)
  have fresh: "getData tr_id (transfers s) new_id = None"
    using assms(5) by (simp add: getTransfer_def)
  show ?thesis
    unfolding createTransfer_def Let_def
    by (simp add: assms(1,2,3) c adjust_category_eq g addData_def fresh js_add_uminus)
qed

lemma replace_same:
  assumes "distinct (map key rs)" and "getData key rs (key r) = Some r"
  shows "map (\<lambda>x. if key x = key r then r else x) rs = rs"
proof -
  have r: "r \<in> set rs" using getData_Some [OF assms(2)] by simp
  have "x \<in> set rs \<Longrightarrow> key x = key r \<Longrightarrow> x = r" for x
    using assms(1) r by (meson distinct_map inj_on_def)
  then show ?thesis by (intro map_idI) auto
qed

lemma updateData_restore:
  assumes "distinct (map key rs)" and "getData key rs (key r) = Some r" and "key r' = key r"
  shows "updateData key (updateData key rs r') r = rs"
proof -
  have 1: "updateData key rs r' = map (\<lambda>x. if key x = key r then r' else x) rs"
    using assms(2,3) by (simp add: updateData_def)
  have 2: "getData key (map (\<lambda>x. if key x = key r then r' else x) rs) (key r) = Some r'"
    using getData_updateData [of key rs r' "key r"] assms(3) by (simp add: 1)
  have "updateData key (updateData key rs r') r =
          updateData key (map (\<lambda>x. if key x = key r then r' else x) rs) r"
    by (simp only: 1)
  also have "\<dots> =
          map (\<lambda>x. if key x = key r then r else x) (map (\<lambda>x. if key x = key r then r' else x) rs)"
    by (simp add: updateData_def 2)
  also have "\<dots> = map (\<lambda>x. if key x = key r then r else x) rs"
    using assms(3) by (simp add: o_def)
  also have "\<dots> = rs"
    by (rule replace_same [OF assms(1,2)])
  finally show ?thesis .
qed

lemma sum_filter_insort:
  "sum_list (map f (filter P (insort_key key r rs))) =
     (if P r then f r else (0::int)) + sum_list (map f (filter P rs))"
  by (induction rs) auto

text \<open>
  The database after a transfer from the unassigned pool to a category followed by a
  transfer of the same amount back, whatever the amount.
\<close>

lemma unassigned_round_trip_outcome:
  fixes s :: db and cid r1 r2 x1 x2 :: string and a t1 t2 :: int and d1 d2 :: "string option"
  assumes cat: "getCategory s cid = Some c"
      and real: "cid \<noteq> UNASSIGNED_CATEGORY_ID"
      and fresh_tx: "getTransaction s x1 = None" "getTransaction s x2 = None" "x1 \<noteq> x2"
      and fresh_tr: "getTransfer s r1 = None" "getTransfer s r2 = None" "r1 \<noteq> r2"
  defines "allocate \<equiv> \<lparr> tr_id = r1, fromCategoryId = UNASSIGNED_CATEGORY_ID, toCategoryId = cid,
                          tr_amount = a, tr_description = d1, tr_date = t1 \<rparr>"
      and "release \<equiv> \<lparr> tr_id = r2, fromCategoryId = cid, toCategoryId = UNASSIGNED_CATEGORY_ID,
                         tr_amount = a, tr_description = d2, tr_date = t2 \<rparr>"
  defines "after1 \<equiv> createTransfer s allocate r1 x1"
  defines "after2 \<equiv> createTransfer (snd after1) release r2 x2"
  shows "fst after1 = Inr allocate \<and> fst after2 = Inr release
       \<and> categories (snd after2) =
           updateData cat_id
             (updateData cat_id (categories s) (c\<lparr> currentAmount := js_add (currentAmount c) a \<rparr>))
             (c\<lparr> currentAmount := js_sub (js_add (currentAmount c) a) a \<rparr>)
       \<and> transactions (snd after2) =
           insort_key tx_id (transfer_transaction release x2 a INCOME UNASSIGNED_CATEGORY_ID)
             (insort_key tx_id (transfer_transaction allocate x1 (- a) EXPENSE UNASSIGNED_CATEGORY_ID)
                (transactions s))
       \<and> budgets (snd after2) = budgets s \<and> accounts (snd after2) = accounts s"
proof (intro conjI)
  define c' where "c' = c\<lparr> currentAmount := js_add (currentAmount c) a \<rparr>"
  define leg1 where "leg1 = transfer_transaction allocate x1 (- a) EXPENSE UNASSIGNED_CATEGORY_ID"
  define leg2 where "leg2 = transfer_transaction release x2 a INCOME UNASSIGNED_CATEGORY_ID"
  define s1 where
    "s1 = s\<lparr> categories := updateData cat_id (categories s) c',
              transactions := insort_key tx_id leg1 (transactions s),
              transfers := insort_key tr_id allocate (transfers s),
              writes := writes s @ [Added TRANSACTIONS x1, Put CATEGORIES cid, Added TRANSFERS r1] \<rparr>"
  have ckey: "cat_id c = cid"
    using cat getData_Some [of cat_id "categories s" cid c] by (simp add: getCategory_def)
  have a1: "after1 = (Inr allocate, s1)"
    unfolding after1_def
    using createTransfer_from_unassigned [of allocate s c x1 r1] cat fresh_tx(1) fresh_tr(1)
    by (simp add: allocate_def s1_def c'_def leg1_def)
  have cat1: "getCategory s1 cid = Some c'"
    by (simp add: s1_def getCategory_def getData_updateData c'_def ckey)
  have tx1: "getTransaction s1 x2 = None"
    using fresh_tx(2,3)
    by (simp add: s1_def getTransaction_def getData_insort_other leg1_def)
  have tr1: "getTransfer s1 r2 = None"
    using fresh_tr(2,3)
    by (simp add: s1_def getTransfer_def getData_insort_other allocate_def)
  define s2 where
    "s2 = s1\<lparr> categories := updateData cat_id (categories s1) (c'\<lparr> currentAmount := js_sub (currentAmount c') a \<rparr>),
               transactions := insort_key tx_id leg2 (transactions s1),
               transfers := insort_key tr_id release (transfers s1),
               writes := writes s1 @ [Added TRANSACTIONS x2, Put CATEGORIES cid, Added TRANSFERS r2] \<rparr>"
  have a2: "after2 = (Inr release, s2)"
    unfolding after2_def a1 snd_conv
    using createTransfer_to_unassigned [of release s1 c' x2 r2] cat1 tx1 tr1 real
    by (simp add: release_def s2_def leg2_def)
  show "fst after1 = Inr allocate" by (simp add: a1)
  show "fst after2 = Inr release" by (simp add: a2)
  show "categories (snd after2) =
           updateData cat_id
             (updateData cat_id (categories s) (c\<lparr> currentAmount := js_add (currentAmount c) a \<rparr>))
             (c\<lparr> currentAmount := js_sub (js_add (currentAmount c) a) a \<rparr>)"
    by (simp add: a2 s2_def s1_def c'_def)
  show "transactions (snd after2) =
           insort_key tx_id (transfer_transaction release x2 a INCOME UNASSIGNED_CATEGORY_ID)
             (insort_key tx_id (transfer_transaction allocate x1 (- a) EXPENSE UNASSIGNED_CATEGORY_ID)
                (transactions s))"
    by (simp add: a2 s2_def s1_def leg1_def leg2_def)
  show "budgets (snd after2) = budgets s" by (simp add: a2 s2_def s1_def)
  show "accounts (snd after2) = accounts s" by (simp add: a2 s2_def s1_def)
qed

text \<open>The two synthesised transactions are tagged "transfer" and stay out of the pool.\<close>

lemma getUnassignedBalance_transfer_legs:
  assumes "transactions s' =
             insort_key tx_id (transfer_transaction release x2 v2 ty2 k2)
               (insort_key tx_id (transfer_transaction allocate x1 v1 ty1 k1) (transactions s))"
      and "budgets s' = budgets s" and "accounts s' = accounts s"
  shows "getUnassignedBalance s' = getUnassignedBalance (s\<lparr> categories := categories s' \<rparr>)"
  by (simp add: getUnassignedBalance_def getAllTransactions_def getAllBudgets_def
                getAllCategories_def getAccounts_def assms sum_filter_insort
                transfer_transaction_def
           split: list.splits)

text \<open>
  Claim C9 (amended).  Let C be an existing category (its id is not the UNASSIGNED
  sentinel) in a category store with unique keys, and let \<open>C.currentAmount\<close> and
  \<open>C.currentAmount + a\<close> be safe integers.  A transfer of amount \<open>a\<close> from UNASSIGNED to C
  followed by a transfer of the same amount from C to UNASSIGNED (all four identifiers
  fresh) succeeds twice and leaves \<open>getUnassignedBalance\<close> and the record of C, hence
  \<open>C.currentAmount\<close>, equal to what they were before the first transfer.
\<close>

theorem unassigned_round_trip:
  assumes distinct: "distinct (map cat_id (categories s))"
      and cat: "getCategory s cid = Some c"
      and real: "cid \<noteq> UNASSIGNED_CATEGORY_ID"
      and safe: "safe_integer (currentAmount c)" "safe_integer (currentAmount c + a)"
      and fresh_tx: "getTransaction s x1 = None" "getTransaction s x2 = None" "x1 \<noteq> x2"
      and fresh_tr: "getTransfer s r1 = None" "getTransfer s r2 = None" "r1 \<noteq> r2"
  shows "let allocate = \<lparr> tr_id = r1, fromCategoryId = UNASSIGNED_CATEGORY_ID, toCategoryId = cid,
                           tr_amount = a, tr_description = d1, tr_date = t1 \<rparr>;
             release = \<lparr> tr_id = r2, fromCategoryId = cid, toCategoryId = UNASSIGNED_CATEGORY_ID,
                          tr_amount = a, tr_description = d2, tr_date = t2 \<rparr>;
             after1 = createTransfer s allocate r1 x1;
             after2 = createTransfer (snd after1) release r2 x2
         in fst after1 = Inr allocate \<and> fst after2 = Inr release
          \<and> getUnassignedBalance (snd after2) = getUnassignedBalance s
          \<and> getCategory (snd after2) cid = Some c"
proof -
  define allocate where
    "allocate = \<lparr> tr_id = r1, fromCategoryId = UNASSIGNED_CATEGORY_ID, toCategoryId = cid,
                   tr_amount = a, tr_description = d1, tr_date = t1 \<rparr>"
  define release where
    "release = \<lparr> tr_id = r2, fromCategoryId = cid, toCategoryId = UNASSIGNED_CATEGORY_ID,
                  tr_amount = a, tr_description = d2, tr_date = t2 \<rparr>"
  define after2 where
    "after2 = createTransfer (snd (createTransfer s allocate r1 x1)) release r2 x2"
  note all = unassigned_round_trip_outcome
               [OF cat real fresh_tx fresh_tr,
                where a = a and ?d1.0 = d1 and ?t1.0 = t1 and ?d2.0 = d2 and ?t2.0 = t2,
                folded allocate_def release_def, folded after2_def]
  note outcome = all [THEN conjunct1] all [THEN conjunct2, THEN conjunct1]
                 all [THEN conjunct2, THEN conjunct2, THEN conjunct1]
                 all [THEN conjunct2, THEN conjunct2, THEN conjunct2, THEN conjunct1]
                 all [THEN conjunct2, THEN conjunct2, THEN conjunct2, THEN conjunct2, THEN conjunct1]
                 all [THEN conjunct2, THEN conjunct2, THEN conjunct2, THEN conjunct2, THEN conjunct2]
  have ckey: "cat_id c = cid"
    using cat getData_Some [of cat_id "categories s" cid c] by (simp add: getCategory_def)
  have restored: "c\<lparr> currentAmount := js_sub (js_add (currentAmount c) a) a \<rparr> = c"
    by (simp add: js_add_then_sub [OF safe])
  have cats2: "categories (snd after2) = categories s"
    using updateData_restore [of cat_id "categories s" c
                                 "c\<lparr> currentAmount := js_add (currentAmount c) a \<rparr>"]
          distinct cat
    by (simp add: outcome(3) restored getCategory_def ckey)
  have "getUnassignedBalance (snd after2) = getUnassignedBalance (s\<lparr> categories := categories s \<rparr>)"
    using getUnassignedBalance_transfer_legs [OF outcome(4,5,6)] by (simp only: cats2)
  then have pool: "getUnassignedBalance (snd after2) = getUnassignedBalance s"
    by simp
  have "getCategory (snd after2) cid = Some c"
    using cat by (simp add: getCategory_def cats2)
  then show ?thesis
    unfolding Let_def allocate_def [symmetric] release_def [symmetric] after2_def [symmetric]
    by (simp add: outcome(1,2) pool)
qed

lemma getTransfer_groceries_db: "getTransfer groceries_db i = None"
  by (simp add: getTransfer_def getData_def groceries_db_def two_accounts_db_def empty_db_def)

lemma getUnassignedBalance_groceries_db: "getUnassignedBalance groceries_db = 100000"
  by (simp add: getUnassignedBalance_def getAllTransactions_def getAllBudgets_def
                getAllCategories_def getAccounts_def groceries_db_def two_accounts_db_def
                empty_db_def example_account_def example_category_def)

theorem unassigned_round_trip_witness:
  "distinct (map cat_id (categories groceries_db))
   \<and> getCategory groceries_db ''c1'' = Some (example_category ''c1'' ''Groceries'' 0)
   \<and> ''c1'' \<noteq> UNASSIGNED_CATEGORY_ID
   \<and> safe_integer (currentAmount (example_category ''c1'' ''Groceries'' 0))
   \<and> safe_integer (currentAmount (example_category ''c1'' ''Groceries'' 0) + 7)
   \<and> getTransaction groceries_db ''x1'' = None \<and> getTransaction groceries_db ''x2'' = None
   \<and> ''x1'' \<noteq> ''x2''
   \<and> getTransfer groceries_db ''r1'' = None \<and> getTransfer groceries_db ''r2'' = None
   \<and> ''r1'' \<noteq> ''r2''
   \<and> getUnassignedBalance groceries_db = 100000
   \<and> getUnassignedBalance
        (snd (createTransfer
                (snd (createTransfer groceries_db
                        (example_transfer ''r1'' UNASSIGNED_CATEGORY_ID ''c1'' 7 None) ''r1'' ''x1''))
                (example_transfer ''r2'' ''c1'' UNASSIGNED_CATEGORY_ID 7 None) ''r2'' ''x2'')) = 100000
   \<and> getCategory
        (snd (createTransfer
                (snd (createTransfer groceries_db
                        (example_transfer ''r1'' UNASSIGNED_CATEGORY_ID ''c1'' 7 None) ''r1'' ''x1''))
                (example_transfer ''r2'' ''c1'' UNASSIGNED_CATEGORY_ID 7 None) ''r2'' ''x2'')) ''c1''
       = Some (example_category ''c1'' ''Groceries'' 0)"
proof -
  have h1: "distinct (map cat_id (categories groceries_db))"
    by (simp add: groceries_db_def)
  have h3: "''c1'' \<noteq> UNASSIGNED_CATEGORY_ID"
    by (simp add: UNASSIGNED_CATEGORY_ID_def)
  have safe: "safe_integer (currentAmount (example_category ''c1'' ''Groceries'' 0))"
             "safe_integer (currentAmount (example_category ''c1'' ''Groceries'' 0) + 7)"
    by (simp_all add: example_category_def safe_integer_def MAX_SAFE_INTEGER_def)
  have h4: "''x1'' \<noteq> ''x2''" "''r1'' \<noteq> ''r2''" by simp_all
  from unassigned_round_trip [OF h1 getCategory_groceries_db h3 safe
         getTransaction_groceries_db getTransaction_groceries_db h4(1)
         getTransfer_groceries_db getTransfer_groceries_db h4(2), of None 0 None 0]
  show ?thesis
    using safe
    by (simp add: Let_def example_transfer_def h1 h3 getCategory_groceries_db
                  getTransaction_groceries_db getTransfer_groceries_db
                  getUnassignedBalance_groceries_db)
qed

text \<open>
  The claim as stated fails beyond the safe integers.  With "Groceries" at
  9007199254740992 and the amount 1, the first transfer computes 9007199254740993,
  which rounds to 9007199254740992, and the second subtracts 1 from that: the category
  ends at 9007199254740991 and the pool, which was 0, is 1.
\<close>

lemma brimming_db_lookups:
  "getCategory brimming_db ''c1'' = Some (example_category ''c1'' ''Groceries'' 9007199254740992)"
  "getTransaction brimming_db i = None"
  "getTransfer brimming_db i = None"
  by (simp_all add: brimming_db_def empty_db_def getCategory_def getTransaction_def getTransfer_def
                    getData_def example_category_def)

theorem unassigned_round_trip_rounding_counterexample:
  "map_option currentAmount (getCategory brimming_db ''c1'') = Some 9007199254740992
   \<and> getUnassignedBalance brimming_db = 0
   \<and> fst (createTransfer brimming_db
             (example_transfer ''r1'' UNASSIGNED_CATEGORY_ID ''c1'' 1 None) ''r1'' ''x1'')
       = Inr (example_transfer ''r1'' UNASSIGNED_CATEGORY_ID ''c1'' 1 None)
   \<and> fst (createTransfer
             (snd (createTransfer brimming_db
                     (example_transfer ''r1'' UNASSIGNED_CATEGORY_ID ''c1'' 1 None) ''r1'' ''x1''))
             (example_transfer ''r2'' ''c1'' UNASSIGNED_CATEGORY_ID 1 None) ''r2'' ''x2'')
       = Inr (example_transfer ''r2'' ''c1'' UNASSIGNED_CATEGORY_ID 1 None)
   \<and> map_option currentAmount
        (getCategory
           (snd (createTransfer
                   (snd (createTransfer brimming_db
                           (example_transfer ''r1'' UNASSIGNED_CATEGORY_ID ''c1'' 1 None) ''r1'' ''x1''))
                   (example_transfer ''r2'' ''c1'' UNASSIGNED_CATEGORY_ID 1 None) ''r2'' ''x2''))
           ''c1'') = Some 9007199254740991
   \<and> getUnassignedBalance
        (snd (createTransfer
                (snd (createTransfer brimming_db
                        (example_transfer ''r1'' UNASSIGNED_CATEGORY_ID ''c1'' 1 None) ''r1'' ''x1''))
                (example_transfer ''r2'' ''c1'' UNASSIGNED_CATEGORY_ID 1 None) ''r2'' ''x2'')) = 1"
proof -
  define after2 where
    "after2 = createTransfer
                (snd (createTransfer brimming_db
                        (example_transfer ''r1'' UNASSIGNED_CATEGORY_ID ''c1'' 1 None) ''r1'' ''x1''))
                (example_transfer ''r2'' ''c1'' UNASSIGNED_CATEGORY_ID 1 None) ''r2'' ''x2''"
  have real: "''c1'' \<noteq> UNASSIGNED_CATEGORY_ID"
    by (simp add: UNASSIGNED_CATEGORY_ID_def)
  have ids: "''x1'' \<noteq> ''x2''" "''r1'' \<noteq> ''r2''" by simp_all
  note all = unassigned_round_trip_outcome
               [OF brimming_db_lookups(1) real brimming_db_lookups(2) brimming_db_lookups(2) ids(1)
                   brimming_db_lookups(3) brimming_db_lookups(3) ids(2),
                where a = 1 and ?d1.0 = None and ?t1.0 = 0 and ?d2.0 = None and ?t2.0 = 0,
                folded example_transfer_def, folded after2_def]
  note outcome = all [THEN conjunct1] all [THEN conjunct2, THEN conjunct1]
                 all [THEN conjunct2, THEN conjunct2, THEN conjunct1]
                 all [THEN conjunct2, THEN conjunct2, THEN conjunct2, THEN conjunct1]
                 all [THEN conjunct2, THEN conjunct2, THEN conjunct2, THEN conjunct2, THEN conjunct1]
                 all [THEN conjunct2, THEN conjunct2, THEN conjunct2, THEN conjunct2, THEN conjunct2]
  have round_trip: "js_sub (js_add 9007199254740992 1) 1 = 9007199254740991"
    by (simp add: js_add_at_2_53 js_sub_at_2_53)
  have cats2: "categories (snd after2) = [example_category ''c1'' ''Groceries'' 9007199254740991]"
    by (simp add: outcome(3) brimming_db_def empty_db_def example_category_def updateData_def
                  getData_def round_trip)
  have before: "getUnassignedBalance brimming_db = 0"
    by (simp add: getUnassignedBalance_def getAllTransactions_def getAllBudgets_def
                  getAllCategories_def getAccounts_def brimming_db_def empty_db_def
                  example_account_def example_category_def)
  have "getUnassignedBalance (snd after2) =
          getUnassignedBalance (brimming_db\<lparr> categories := categories (snd after2) \<rparr>)"
    by (rule getUnassignedBalance_transfer_legs [OF outcome(4,5,6)])
  also have "\<dots> = 1"
    by (simp add: cats2 getUnassignedBalance_def getAllTransactions_def getAllBudgets_def
                  getAllCategories_def getAccounts_def brimming_db_def empty_db_def
                  example_account_def example_category_def)
  finally have pool: "getUnassignedBalance (snd after2) = 1" .
  have "map_option currentAmount (getCategory (snd after2) ''c1'') = Some 9007199254740991"
    by (simp add: getCategory_def cats2 getData_def example_category_def)
  then show ?thesis
    unfolding after2_def [symmetric]
    by (simp add: outcome(1,2) pool before brimming_db_lookups(1) example_category_def)
qed

subsection \<open>Deleting a transfer out of the unassigned pool\<close>

lemma find_SomeD: "find P xs = Some x \<Longrightarrow> x \<in> set xs \<and> P x"
  by (induction xs) (auto split: if_splits)

lemma delete_matching_transaction_fst:
  "fst (delete_matching_transaction s amount description) = Inr ()"
proof (cases "find (transfer_match amount description) (getAllTransactions s)")
  case None
  then show ?thesis by (simp add: delete_matching_transaction_def)
next
  case (Some tt)
  then have "tt \<in> set (transactions s)"
    using find_SomeD [OF Some] by (simp add: getAllTransactions_def)
  then have "getTransaction s (tx_id tt) \<noteq> None"
    by (simp add: getTransaction_def getData_None_iff)
  then obtain tt' where "getTransaction s (tx_id tt) = Some tt'" by auto
  then show ?thesis
    by (simp add: delete_matching_transaction_def Some deleteTransaction_fst)
qed

lemma delete_matching_transaction_transfers:
  "transfers (snd (delete_matching_transaction s amount description)) = transfers s"
proof (cases "find (transfer_match amount description) (getAllTransactions s)")
  case None
  then show ?thesis by (simp add: delete_matching_transaction_def)
next
  case (Some tt)
  then have "tt \<in> set (transactions s)"
    using find_SomeD [OF Some] by (simp add: getAllTransactions_def)
  then have "getTransaction s (tx_id tt) \<noteq> None"
    by (simp add: getTransaction_def getData_None_iff)
  then obtain tt' where "getTransaction s (tx_id tt) = Some tt'" by auto
  then show ?thesis
    by (simp add: delete_matching_transaction_def Some deleteTransaction_Some Let_def
                  adjust_account_frame category_effect_frame)
qed

lemma delete_matching_transaction_getCategory:
  "\<exists>f. getCategory (snd (delete_matching_transaction s amount description)) j =
         map_option (\<lambda>c. c\<lparr> currentAmount := f c \<rparr>) (getCategory s j)"
proof (cases "find (transfer_match amount description) (getAllTransactions s)")
  case None
  then have same: "getCategory (snd (delete_matching_transaction s amount description)) j =
         map_option (\<lambda>c. c\<lparr> currentAmount := currentAmount c \<rparr>) (getCategory s j)"
    by (simp add: delete_matching_transaction_def option.map_ident)
  show ?thesis
    by (rule exI [of _ currentAmount]) (fact same)
next
  case (Some tt)
  then have "tt \<in> set (transactions s)"
    using find_SomeD [OF Some] by (simp add: getAllTransactions_def)
  then have "getTransaction s (tx_id tt) \<noteq> None"
    by (simp add: getTransaction_def getData_None_iff)
  then obtain tt' where stored: "getTransaction s (tx_id tt) = Some tt'" by auto
  show ?thesis
  proof (cases "category_effect_target tt' = Some j")
    case True
    then have reversed: "getCategory (snd (delete_matching_transaction s amount description)) j =
         map_option (\<lambda>c. c\<lparr> currentAmount := js_sub (currentAmount c) (tx_amount tt') \<rparr>)
           (getCategory s j)"
      by (simp add: delete_matching_transaction_def Some deleteTransaction_getCategory [OF stored])
    show ?thesis
      by (rule exI [of _ "\<lambda>c. js_sub (currentAmount c) (tx_amount tt')"]) (fact reversed)
  next
    case False
    then have same: "getCategory (snd (delete_matching_transaction s amount description)) j =
         map_option (\<lambda>c. c\<lparr> currentAmount := currentAmount c \<rparr>) (getCategory s j)"
      by (simp add: delete_matching_transaction_def Some deleteTransaction_getCategory [OF stored]
                    option.map_ident)
    show ?thesis
      by (rule exI [of _ currentAmount]) (fact same)
  qed
qed

lemma delete_matching_transaction_getTransaction:
  assumes "\<And>t. t \<in> set (transactions s) \<Longrightarrow> transfer_match amount description t \<Longrightarrow> tx_id t \<noteq> k"
  shows "getTransaction (snd (delete_matching_transaction s amount description)) k = getTransaction s k"
proof (cases "find (transfer_match amount description) (getAllTransactions s)")
  case None
  then show ?thesis by (simp add: delete_matching_transaction_def)
next
  case (Some tt)
  then have tt: "tt \<in> set (transactions s)" "transfer_match amount description tt"
    using find_SomeD [OF Some] by (simp_all add: getAllTransactions_def)
  then have "getTransaction s (tx_id tt) \<noteq> None"
    by (simp add: getTransaction_def getData_None_iff)
  then obtain tt' where stored: "getTransaction s (tx_id tt) = Some tt'" by auto
  have "tx_id tt \<noteq> k" using assms tt by blast
  then show ?thesis
    by (simp add: delete_matching_transaction_def Some deleteTransaction_getTransaction [OF stored])
qed

lemma or_default_Transfer:
  "d \<noteq> Some (''Transfer to '' @ n) \<Longrightarrow> or_default d ''Transfer'' \<noteq> ''Transfer to '' @ n"
  by (cases d) (auto simp: truthy_def)

lemma case_delete_matching_transaction:
  "(case delete_matching_transaction s a d of (Inl e, s1) \<Rightarrow> A e s1 | (Inr u, s1) \<Rightarrow> B u s1)
     = B () (snd (delete_matching_transaction s a d))"
  using delete_matching_transaction_fst [of s a d]
  by (cases "delete_matching_transaction s a d") (auto split: sum.splits)

lemma deleteTransfer_from_unassigned:
  assumes "getTransfer s i = Some transfer"
      and "fromCategoryId transfer = UNASSIGNED_CATEGORY_ID"
      and "getCategory s (toCategoryId transfer) = Some toCategory"
  shows "deleteTransfer s i =
     (case updateCategory
             (snd (delete_matching_transaction s (- tr_amount transfer)
                     (''Transfer to '' @ cat_name toCategory)))
             (toCategoryId transfer)
             (only_currentAmount (js_sub (currentAmount toCategory) (tr_amount transfer))) of
        (Inl e, s') \<Rightarrow> (Inl e, s')
      | (Inr c, s') \<Rightarrow>
          (Inr (), s'\<lparr> transfers := deleteData tr_id (transfers s') i,
                       writes := writes s' @ [Deleted TRANSFERS i] \<rparr>))"
  by (simp add: deleteTransfer_def assms case_delete_matching_transaction discard_def
           split: prod.splits sum.splits)

text \<open>
  Claim C10.  Let a transfer from UNASSIGNED to an existing category C be created by
  \<open>createTransfer\<close> (fresh identifiers) with a description field that is not exactly
  "Transfer to " followed by the name of C; the absent description, which becomes the
  default "Transfer", is one such.  The synthesised transaction, tagged "transfer" and of
  amount minus the transfer amount, does not satisfy the content match of
  \<open>deleteTransfer\<close>.  Deleting the transfer succeeds, subtracts the transfer amount
  from \<open>C.currentAmount\<close> and removes the transfer record, and the synthesised
  transaction is still in the transaction store.
\<close>

theorem deleteTransfer_leaves_synthesized_transaction:
  assumes src: "fromCategoryId input = UNASSIGNED_CATEGORY_ID"
      and cat: "getCategory s (toCategoryId input) = Some c"
      and descr: "tr_description input \<noteq> Some (''Transfer to '' @ cat_name c)"
      and fresh_tx: "getTransaction s tx_new_id = None"
      and fresh_tr: "getTransfer s new_id = None"
  shows "let created = createTransfer s input new_id tx_new_id;
             synthesized = transfer_transaction input tx_new_id (- tr_amount input) EXPENSE
                             UNASSIGNED_CATEGORY_ID;
             deleted = deleteTransfer (snd created) new_id
         in fst created = Inr (input\<lparr> tr_id := new_id \<rparr>)
          \<and> getTransfer (snd created) new_id = Some (input\<lparr> tr_id := new_id \<rparr>)
          \<and> getTransaction (snd created) tx_new_id = Some synthesized
          \<and> getCategory (snd created) (toCategoryId input)
              = Some (c\<lparr> currentAmount := js_add (currentAmount c) (tr_amount input) \<rparr>)
          \<and> \<not> transfer_match (- tr_amount input) (''Transfer to '' @ cat_name c) synthesized
          \<and> fst deleted = Inr ()
          \<and> getCategory (snd deleted) (toCategoryId input)
              = Some (c\<lparr> currentAmount :=
                           js_sub (js_add (currentAmount c) (tr_amount input)) (tr_amount input) \<rparr>)
          \<and> getTransfer (snd deleted) new_id = None
          \<and> getTransaction (snd deleted) tx_new_id = Some synthesized"
proof -
  let ?to = "toCategoryId input" and ?amt = "tr_amount input"
  define transfer where "transfer = input\<lparr> tr_id := new_id \<rparr>"
  define synthesized where
    "synthesized = transfer_transaction input tx_new_id (- ?amt) EXPENSE UNASSIGNED_CATEGORY_ID"
  define c' where "c' = c\<lparr> currentAmount := js_add (currentAmount c) ?amt \<rparr>"
  define s1 where
    "s1 = s\<lparr> categories := updateData cat_id (categories s) c',
              transactions := insort_key tx_id synthesized (transactions s),
              transfers := insort_key tr_id transfer (transfers s),
              writes := writes s @ [Added TRANSACTIONS tx_new_id, Put CATEGORIES ?to,
                                    Added TRANSFERS new_id] \<rparr>"
  have created: "createTransfer s input new_id tx_new_id = (Inr transfer, s1)"
    using createTransfer_from_unassigned [OF src cat fresh_tx fresh_tr]
    by (simp add: transfer_def s1_def c'_def synthesized_def)
  have ckey: "cat_id c = ?to"
    using cat getData_Some [of cat_id "categories s" ?to c] by (simp add: getCategory_def)
  have tr1: "getTransfer s1 new_id = Some transfer"
    using fresh_tr getData_insort_same [of tr_id "transfers s" transfer]
    by (simp add: s1_def getTransfer_def transfer_def)
  have tx1: "getTransaction s1 tx_new_id = Some synthesized"
    using fresh_tx getData_insort_same [of tx_id "transactions s" synthesized]
    by (simp add: s1_def getTransaction_def synthesized_def)
  have cat1: "getCategory s1 ?to = Some c'"
    by (simp add: s1_def getCategory_def getData_updateData c'_def ckey)
  have nomatch: "\<not> transfer_match (- ?amt) (''Transfer to '' @ cat_name c) synthesized"
    using or_default_Transfer [OF descr]
    by (simp add: transfer_match_def synthesized_def transfer_transaction_def)
  have src1: "fromCategoryId transfer = UNASSIGNED_CATEGORY_ID"
    by (simp add: transfer_def src)
  have to1: "toCategoryId transfer = ?to" and amt1: "tr_amount transfer = ?amt"
    by (simp_all add: transfer_def)
  have name1: "cat_name c' = cat_name c"
    by (simp add: c'_def)
  define sD where
    "sD = snd (delete_matching_transaction s1 (- tr_amount transfer) (''Transfer to '' @ cat_name c'))"
  have del: "deleteTransfer s1 new_id =
     (case updateCategory sD (toCategoryId transfer)
             (only_currentAmount (js_sub (currentAmount c') (tr_amount transfer))) of
        (Inl e, s') \<Rightarrow> (Inl e, s')
      | (Inr c, s') \<Rightarrow>
          (Inr (), s'\<lparr> transfers := deleteData tr_id (transfers s') new_id,
                       writes := writes s' @ [Deleted TRANSFERS new_id] \<rparr>))"
    unfolding sD_def
    by (rule deleteTransfer_from_unassigned [OF tr1 src1]) (simp add: to1 cat1)
  obtain v where catD: "getCategory sD ?to = Some (c'\<lparr> currentAmount := v \<rparr>)"
    using delete_matching_transaction_getCategory
            [of s1 "- tr_amount transfer" "''Transfer to '' @ cat_name c'" ?to]
    unfolding sD_def [symmetric] by (auto simp: cat1)
  have trD: "transfers sD = transfers s1"
    unfolding sD_def by (rule delete_matching_transaction_transfers)
  have other: "tx_id t \<noteq> tx_new_id"
    if "t \<in> set (transactions s1)"
       "transfer_match (- tr_amount transfer) (''Transfer to '' @ cat_name c') t" for t
  proof -
    have "t \<noteq> synthesized" using that(2) nomatch by (auto simp: amt1 name1)
    then have "t \<in> set (transactions s)"
      using that(1) by (simp add: s1_def set_insort_key)
    then show ?thesis
      using fresh_tx by (auto simp: getTransaction_def getData_None_iff)
  qed
  have txD: "getTransaction sD tx_new_id = Some synthesized"
    unfolding sD_def
    using delete_matching_transaction_getTransaction
            [of s1 "- tr_amount transfer" "''Transfer to '' @ cat_name c'" tx_new_id] other tx1
    by simp
  define s2 where
    "s2 = sD\<lparr> categories := updateData cat_id (categories sD)
                               (c'\<lparr> currentAmount := js_sub (currentAmount c') ?amt \<rparr>),
               writes := writes sD @ [Put CATEGORIES ?to] \<rparr>"
  have upd: "updateCategory sD (toCategoryId transfer)
               (only_currentAmount (js_sub (currentAmount c') (tr_amount transfer))) =
               (Inr (c'\<lparr> currentAmount := js_sub (currentAmount c') ?amt \<rparr>), s2)"
    by (simp add: to1 amt1 updateCategory_Some [OF catD] s2_def)
  have deleted: "deleteTransfer s1 new_id =
                   (Inr (), s2\<lparr> transfers := deleteData tr_id (transfers s2) new_id,
                                  writes := writes s2 @ [Deleted TRANSFERS new_id] \<rparr>)"
    by (simp only: del upd prod.case sum.case)
  have cat2: "getCategory (snd (deleteTransfer s1 new_id)) ?to
                = Some (c\<lparr> currentAmount := js_sub (js_add (currentAmount c) ?amt) ?amt \<rparr>)"
    by (simp add: deleted s2_def getCategory_def getData_updateData c'_def ckey)
  have tr2: "getTransfer (snd (deleteTransfer s1 new_id)) new_id = None"
    by (simp add: deleted getTransfer_def getData_deleteData)
  have tx2: "getTransaction (snd (deleteTransfer s1 new_id)) tx_new_id = Some synthesized"
    using txD by (simp add: deleted s2_def getTransaction_def)
  show ?thesis
    unfolding Let_def synthesized_def [symmetric]
    using nomatch cat2 tr2 tx2
    by (simp add: created tr1 tx1 cat1 deleted) (simp add: transfer_def c'_def)
qed


theorem deleteTransfer_leaves_synthesized_transaction_witness:
  "fromCategoryId (example_transfer ''r0'' UNASSIGNED_CATEGORY_ID ''c1'' 7 None) = UNASSIGNED_CATEGORY_ID
   \<and> getCategory groceries_db (toCategoryId (example_transfer ''r0'' UNASSIGNED_CATEGORY_ID ''c1'' 7 None))
       = Some (example_category ''c1'' ''Groceries'' 0)
   \<and> tr_description (example_transfer ''r0'' UNASSIGNED_CATEGORY_ID ''c1'' 7 None)
       \<noteq> Some (''Transfer to '' @ cat_name (example_category ''c1'' ''Groceries'' 0))
   \<and> getTransaction groceries_db ''x1'' = None
   \<and> getTransfer groceries_db ''r1'' = None
   \<and> getCategory
        (snd (createTransfer groceries_db (example_transfer ''r0'' UNASSIGNED_CATEGORY_ID ''c1'' 7 None)
                ''r1'' ''x1'')) ''c1''
       = Some (example_category ''c1'' ''Groceries'' 7)
   \<and> fst (deleteTransfer
             (snd (createTransfer groceries_db (example_transfer ''r0'' UNASSIGNED_CATEGORY_ID ''c1'' 7 None)
                     ''r1'' ''x1'')) ''r1'') = Inr ()
   \<and> getCategory
        (snd (deleteTransfer
                (snd (createTransfer groceries_db (example_transfer ''r0'' UNASSIGNED_CATEGORY_ID ''c1'' 7 None)
                        ''r1'' ''x1'')) ''r1'')) ''c1''
       = Some (example_category ''c1'' ''Groceries'' 0)
   \<and> getTransfer
        (snd (deleteTransfer
                (snd (createTransfer groceries_db (example_transfer ''r0'' UNASSIGNED_CATEGORY_ID ''c1'' 7 None)
                        ''r1'' ''x1'')) ''r1'')) ''r1'' = None
   \<and> getTransaction
        (snd (deleteTransfer
                (snd (createTransfer groceries_db (example_transfer ''r0'' UNASSIGNED_CATEGORY_ID ''c1'' 7 None)
                        ''r1'' ''x1'')) ''r1'')) ''x1''
       = Some \<lparr> tx_id = ''x1'', tx_accountId = ''default-account-id'',
                tx_categoryId = Some UNASSIGNED_CATEGORY_ID, tx_amount = - 7,
                tx_description = ''Transfer'', tx_date = 0, tx_type = EXPENSE,
                tx_tags = Some [''transfer''] \<rparr>"
proof -
  let ?input = "example_transfer ''r0'' UNASSIGNED_CATEGORY_ID ''c1'' 7 None"
  have h1: "fromCategoryId ?input = UNASSIGNED_CATEGORY_ID"
    by (simp add: example_transfer_def)
  have h2: "getCategory groceries_db (toCategoryId ?input) = Some (example_category ''c1'' ''Groceries'' 0)"
    by (simp add: example_transfer_def getCategory_groceries_db)
  have h3: "tr_description ?input \<noteq> Some (''Transfer to '' @ cat_name (example_category ''c1'' ''Groceries'' 0))"
    by (simp add: example_transfer_def)
  have sums: "js_add 0 7 = 7" "js_sub 7 7 = 0"
    by (simp_all add: js_add_safe js_sub_safe safe_integer_def MAX_SAFE_INTEGER_def)
  from deleteTransfer_leaves_synthesized_transaction
         [where new_id = "''r1''" and tx_new_id = "''x1''",
          OF h1 h2 h3 getTransaction_groceries_db getTransfer_groceries_db]
       h1 h2 h3
  show ?thesis
    by (simp add: Let_def getTransaction_groceries_db getTransfer_groceries_db)
       (simp add: example_transfer_def example_category_def transfer_transaction_def sums)
qed

subsection \<open>Reconciliation of the categories\<close>












subsection \<open>Reconciliation of the accounts\<close>
















end
